theory Spec2Isabelle
  imports Complex_Main "HOL-Library.Multiset"
begin

section \<open>Events and Python values\<close>

text \<open>
  Timestamps (pandas index values, \<open>datetime\<close> objects) are natural numbers. Prices are
  real numbers: the floating-point rounding of numpy is outside this development.
\<close>

type_synonym timestamp = nat

datatype error = KeyError | IndexError | AttributeError | ValueError

text \<open>
  Modelled from the spec: module \<open>event.py\<close> (the classes MarketEvent, SignalEvent,
  OrderEvent and FillEvent) is missing. The constructors carry the arguments in the order
  of the calls in the source: \<open>SignalEvent(strategy_id, symbol, datetime, signal_type,
  strength)\<close>, \<open>FillEvent(timeindex, symbol, exchange, quantity, direction, fill_cost)\<close>;
  \<open>OrderEvent\<close> has the fields read by \<open>execute_order\<close>: symbol, order_type, quantity,
  direction.
\<close>

datatype event =
    MarketEvent
  | SignalEvent int string timestamp string real
  | OrderEvent string string int string
  | FillEvent timestamp string string int string real

fun etype :: "event \<Rightarrow> string" where
  "etype MarketEvent = ''MARKET''"
| "etype (SignalEvent _ _ _ _ _) = ''SIGNAL''"
| "etype (OrderEvent _ _ _ _) = ''ORDER''"
| "etype (FillEvent _ _ _ _ _ _) = ''FILL''"

text \<open>Python's \<open>xs[i:]\<close>: a negative start counts from the end and is clipped at 0.\<close>

definition slice_from :: "int \<Rightarrow> 'a list \<Rightarrow> 'a list" where
  "slice_from i xs = (if i < 0 then drop (nat (int (length xs) + i)) xs else drop (nat i) xs)"

text \<open>A list comprehension whose element expression may raise.\<close>

fun map_err :: "('a \<Rightarrow> error + 'b) \<Rightarrow> 'a list \<Rightarrow> error + 'b list" where
  "map_err f [] = Inr []"
| "map_err f (x # xs) =
     (case f x of
        Inl e \<Rightarrow> Inl e
      | Inr y \<Rightarrow> (case map_err f xs of Inl e \<Rightarrow> Inl e | Inr ys \<Rightarrow> Inr (y # ys)))"


section \<open>data.py: HistoricCSVDataHandler\<close>

text \<open>
  A bar is what \<open>iterrows()\<close> yields: the index value and the row. The row is the pandas
  Series with the six columns named in \<open>read_csv\<close>.
\<close>

record row =
  bar_open :: real
  bar_high :: real
  bar_low :: real
  bar_close :: real
  bar_volume :: real
  bar_adj_close :: real

type_synonym bar = "timestamp \<times> row"

definition bar_fields :: "string list" where
  "bar_fields = [''open'', ''high'', ''low'', ''close'', ''volume'', ''adj_close'']"

text \<open>
  \<open>getattr(b[1], val_type)\<close> on a row: the six column names answer with the column's
  value, any other name is an AttributeError here (attributes of the pandas Series class
  itself are not modelled).
\<close>

definition getattr_row :: "row \<Rightarrow> string \<Rightarrow> error + real" where
  "getattr_row r val_type =
     (if val_type = ''open'' then Inr (bar_open r)
      else if val_type = ''high'' then Inr (bar_high r)
      else if val_type = ''low'' then Inr (bar_low r)
      else if val_type = ''close'' then Inr (bar_close r)
      else if val_type = ''volume'' then Inr (bar_volume r)
      else if val_type = ''adj_close'' then Inr (bar_adj_close r)
      else Inl AttributeError)"

text \<open>
  The handler object. \<open>symbol_data\<close> maps a symbol to its row iterator, held as the list
  of the rows not yet consumed; \<open>latest_symbol_data\<close> maps it to the bars observed so
  far, oldest first; \<open>events\<close> is the shared queue, oldest event first.
\<close>

record handler =
  symbol_list :: "string list"
  symbol_data :: "string \<rightharpoonup> bar list"
  latest_symbol_data :: "string \<rightharpoonup> bar list"
  continue_backtest :: bool
  events :: "event list"

text \<open>
  \<open>__init__\<close> with \<open>_open_convert_csv_files\<close>. Reading the CSV files, forming the union
  of their indexes and reindexing every frame onto that union with \<open>method='pad'\<close> is
  pandas' work: \<open>comb_index\<close> is the union index and \<open>padded s t\<close> the row of symbol \<open>s\<close>
  at the index value \<open>t\<close> after the reindexing, so every symbol has one row for every
  value of the one index. The second loop calls \<open>reindex\<close> on the entry of each listed
  symbol; for a symbol listed a second time the entry is already the row iterator, which
  has no such attribute.
\<close>

definition HistoricCSVDataHandler ::
    "event list \<Rightarrow> timestamp list \<Rightarrow> (string \<Rightarrow> timestamp \<Rightarrow> row) \<Rightarrow> string list \<Rightarrow>
       error + handler" where
  "HistoricCSVDataHandler evs comb_index padded syms =
     (if \<not> distinct syms then Inl AttributeError
      else
        Inr \<lparr> symbol_list = syms,
              symbol_data =
                (\<lambda>s. if s \<in> set syms then Some (map (\<lambda>t. (t, padded s t)) comb_index) else None),
              latest_symbol_data = (\<lambda>s. if s \<in> set syms then Some [] else None),
              continue_backtest = True,
              events = evs \<rparr>)"

definition get_latest_bar :: "handler \<Rightarrow> string \<Rightarrow> error + bar" where
  "get_latest_bar h symbol =
     (case latest_symbol_data h symbol of
        None \<Rightarrow> Inl KeyError
      | Some bars_list \<Rightarrow> if bars_list = [] then Inl IndexError else Inr (last bars_list))"

definition get_latest_bars :: "handler \<Rightarrow> string \<Rightarrow> int \<Rightarrow> error + bar list" where
  "get_latest_bars h symbol N =
     (case latest_symbol_data h symbol of
        None \<Rightarrow> Inl KeyError
      | Some bars_list \<Rightarrow> Inr (if bars_list \<noteq> [] then slice_from (- N) bars_list else []))"

definition get_latest_bar_value :: "handler \<Rightarrow> string \<Rightarrow> string \<Rightarrow> error + real option" where
  "get_latest_bar_value h symbol val_type =
     (case latest_symbol_data h symbol of
        None \<Rightarrow> Inl KeyError
      | Some bars_list \<Rightarrow>
          if bars_list \<noteq> [] then
            (case getattr_row (snd (last bars_list)) val_type of
               Inl e \<Rightarrow> Inl e
             | Inr v \<Rightarrow> Inr (Some v))
          else Inr None)"

definition get_latest_bars_values ::
    "handler \<Rightarrow> string \<Rightarrow> string \<Rightarrow> int \<Rightarrow> error + real list" where
  "get_latest_bars_values h symbol val_type N =
     (case get_latest_bars h symbol N of
        Inl e \<Rightarrow> Inl e
      | Inr bars_list \<Rightarrow> map_err (\<lambda>b. getattr_row (snd b) val_type) bars_list)"

definition get_latest_bar_datetime :: "handler \<Rightarrow> string \<Rightarrow> error + timestamp" where
  "get_latest_bar_datetime h symbol =
     (case latest_symbol_data h symbol of
        None \<Rightarrow> Inl KeyError
      | Some bars_list \<Rightarrow> if bars_list = [] then Inl IndexError else Inr (fst (last bars_list)))"

text \<open>
  The loop of \<open>update_bars\<close> over the symbol list. \<open>next(self._get_new_bar(s))\<close> takes one
  row from the iterator of \<open>s\<close>; an exhausted iterator is the StopIteration branch. The
  rows of \<open>iterrows()\<close> are pairs, never None, so the test \<open>bar is not None\<close> is always
  true. A symbol without an entry in one of the two dictionaries is a KeyError that leaves
  the method.
\<close>

fun update_loop :: "string list \<Rightarrow> handler \<Rightarrow> error + handler" where
  "update_loop [] h = Inr h"
| "update_loop (s # ss) h =
     (case symbol_data h s of
        None \<Rightarrow> Inl KeyError
      | Some [] \<Rightarrow> update_loop ss (h\<lparr>continue_backtest := False\<rparr>)
      | Some (b # bs) \<Rightarrow>
          (case latest_symbol_data h s of
             None \<Rightarrow> Inl KeyError
           | Some bars_list \<Rightarrow>
               update_loop ss
                 (h\<lparr>symbol_data := (symbol_data h)(s \<mapsto> bs),
                    latest_symbol_data := (latest_symbol_data h)(s \<mapsto> bars_list @ [b])\<rparr>)))"

definition update_bars :: "handler \<Rightarrow> error + handler" where
  "update_bars h =
     (case update_loop (symbol_list h) h of
        Inl e \<Rightarrow> Inl e
      | Inr h' \<Rightarrow> Inr (h'\<lparr>events := events h' @ [MarketEvent]\<rparr>))"

text \<open>Every listed symbol has an entry in both dictionaries, as \<open>__init__\<close> leaves them.\<close>

definition handler_ok :: "handler \<Rightarrow> bool" where
  "handler_ok h \<longleftrightarrow>
     dom (symbol_data h) = set (symbol_list h) \<and>
     dom (latest_symbol_data h) = set (symbol_list h)"

text \<open>The row iterators of the listed symbols have the same number of rows left.\<close>

definition synchronised :: "handler \<Rightarrow> bool" where
  "synchronised h \<longleftrightarrow>
     (\<forall>s \<in> set (symbol_list h). \<forall>t \<in> set (symbol_list h).
        map_option length (symbol_data h s) = map_option length (symbol_data h t))"


section \<open>mac.py: MovingAverageCrossStrategy\<close>

text \<open>
  The values stored in the \<open>bought\<close> dictionary are the string \<open>'OUT'\<close> and the
  booleans; the conditions of \<open>calculate_signals\<close> test them for truth, where a string
  is true unless it is empty.
\<close>

datatype pyval = PStr string | PBool bool

fun truthy :: "pyval \<Rightarrow> bool" where
  "truthy (PStr s) = (s \<noteq> [])"
| "truthy (PBool b) = b"

record mac_strategy =
  short_window :: int
  long_window :: int
  bought :: "string \<rightharpoonup> pyval"

text \<open>
  \<open>np.mean\<close>: the mean of an empty array is nan, written None; a comparison with nan is
  false.
\<close>

definition mean :: "real list \<Rightarrow> real option" where
  "mean xs = (if xs = [] then None else Some (sum_list xs / real (length xs)))"

fun nan_less :: "real option \<Rightarrow> real option \<Rightarrow> bool" where
  "nan_less (Some a) (Some b) = (a < b)"
| "nan_less _ _ = False"

fun calculate_initial_bought :: "string list \<Rightarrow> (string \<rightharpoonup> pyval)" where
  "calculate_initial_bought [] = Map.empty"
| "calculate_initial_bought (s # ss) = (calculate_initial_bought ss)(s \<mapsto> PStr ''OUT'')"

definition MovingAverageCrossStrategy :: "handler \<Rightarrow> int \<Rightarrow> int \<Rightarrow> mac_strategy" where
  "MovingAverageCrossStrategy bars sw lw =
     \<lparr> short_window = sw, long_window = lw,
       bought = calculate_initial_bought (symbol_list bars) \<rparr>"

text \<open>
  The strategy reads the handler and puts on the queue that the handler holds too
  (\<open>events\<close>), so a call works on the pair of both objects. A raise keeps what was
  changed before it: \<open>Inl (e, st)\<close> is the exception \<open>e\<close> raised in state \<open>st\<close>.
  \<open>dt\<close> is the reading of the clock (\<open>utcnow()\<close>).

  The body of the loop of \<open>calculate_signals\<close> for one symbol. Python's \<open>and\<close> reads
  \<open>self.bought[symbol]\<close> only when the comparison before it is true.
\<close>

type_synonym mac_state = "handler \<times> mac_strategy"

definition mac_symbol ::
    "timestamp \<Rightarrow> string \<Rightarrow> mac_state \<Rightarrow> (error \<times> mac_state) + mac_state" where
  "mac_symbol dt symbol st =
     (let h = fst st; m = snd st in
      case get_latest_bars_values h symbol ''adj_close'' (long_window m) of
        Inl e \<Rightarrow> Inl (e, st)
      | Inr bars \<Rightarrow>
          (case get_latest_bar_datetime h symbol of
             Inl e \<Rightarrow> Inl (e, st)
           | Inr bar_date \<Rightarrow>
               if length bars > 0 then
                 (let short_sma = mean (slice_from (- short_window m) bars);
                      long_sma = mean (slice_from (- long_window m) bars)
                  in if nan_less long_sma short_sma then
                       (case bought m symbol of
                          None \<Rightarrow> Inl (KeyError, st)
                        | Some v \<Rightarrow>
                            if \<not> truthy v then
                              Inr (h\<lparr>events := events h @ [SignalEvent 1 symbol dt ''LONG'' 1]\<rparr>,
                                   m\<lparr>bought := (bought m)(symbol \<mapsto> PBool True)\<rparr>)
                            else Inr st)
                     else if nan_less short_sma long_sma then
                       (case bought m symbol of
                          None \<Rightarrow> Inl (KeyError, st)
                        | Some v \<Rightarrow>
                            if truthy v then
                              Inr (h\<lparr>events := events h @ [SignalEvent 1 symbol dt ''EXIT'' 1]\<rparr>,
                                   m\<lparr>bought := (bought m)(symbol \<mapsto> PBool False)\<rparr>)
                            else Inr st)
                     else Inr st)
               else Inr st))"

fun mac_loop ::
    "timestamp \<Rightarrow> string list \<Rightarrow> mac_state \<Rightarrow> (error \<times> mac_state) + mac_state" where
  "mac_loop dt [] st = Inr st"
| "mac_loop dt (s # ss) st =
     (case mac_symbol dt s st of Inl e \<Rightarrow> Inl e | Inr st' \<Rightarrow> mac_loop dt ss st')"

definition mac_calculate_signals ::
    "timestamp \<Rightarrow> event \<Rightarrow> mac_state \<Rightarrow> (error \<times> mac_state) + mac_state" where
  "mac_calculate_signals dt event st =
     (if etype event = ''MARKET'' then mac_loop dt (symbol_list (fst st)) st else Inr st)"

text \<open>The state a call leaves behind, returned or raised.\<close>

fun state_after :: "(error \<times> 's) + 's \<Rightarrow> 's" where
  "state_after (Inl (e, st)) = st"
| "state_after (Inr st) = st"

text \<open>The symbol a SignalEvent is for.\<close>

fun signal_symbol :: "event \<Rightarrow> string option" where
  "signal_symbol (SignalEvent _ s _ _ _) = Some s"
| "signal_symbol _ = None"


section \<open>intraday_mr.py: IntradayOLSMRStrategy\<close>

text \<open>
  \<open>hedge_ratio\<close> is an attribute that exists only once \<open>calculate_signals_for_pairs\<close> has
  assigned it: None is the missing attribute.
\<close>

record olsmr_strategy =
  ols_window :: int
  zscore_low :: real
  zscore_high :: real
  pair :: "string \<times> string"
  datetime :: timestamp
  long_market :: bool
  short_market :: bool
  hedge_ratio :: "real option"

definition IntradayOLSMRStrategy :: "timestamp \<Rightarrow> int \<Rightarrow> real \<Rightarrow> real \<Rightarrow> olsmr_strategy" where
  "IntradayOLSMRStrategy now w lo hi =
     \<lparr> ols_window = w, zscore_low = lo, zscore_high = hi, pair = (''AREX'', ''WLL''),
       datetime = now, long_market = False, short_market = False, hedge_ratio = None \<rparr>"

text \<open>
  The z-score is a float that can be nan (None): every comparison with nan is false.
\<close>

fun nan_le :: "real option \<Rightarrow> real \<Rightarrow> bool" where
  "nan_le (Some z) c = (z \<le> c)"
| "nan_le None c = False"

fun nan_ge :: "real option \<Rightarrow> real \<Rightarrow> bool" where
  "nan_ge (Some z) c = (z \<ge> c)"
| "nan_ge None c = False"

fun nan_abs :: "real option \<Rightarrow> real option" where
  "nan_abs (Some z) = Some \<bar>z\<bar>"
| "nan_abs None = None"

definition calculate_xy_signals ::
    "real option \<Rightarrow> olsmr_strategy \<Rightarrow> error + ((event option \<times> event option) \<times> olsmr_strategy)" where
  "calculate_xy_signals zscore_last m =
     (let p0 = fst (pair m); p1 = snd (pair m); dt = datetime m in
      case hedge_ratio m of
        None \<Rightarrow> Inl AttributeError
      | Some b \<Rightarrow>
          (let hr = \<bar>b\<bar> in
           if nan_le zscore_last (- zscore_high m) \<and> \<not> long_market m then
             Inr ((Some (SignalEvent 1 p0 dt ''LONG'' 1), Some (SignalEvent 1 p1 dt ''SHORT'' hr)),
                  m\<lparr>long_market := True\<rparr>)
           else if nan_le (nan_abs zscore_last) (zscore_low m) \<and> long_market m then
             Inr ((Some (SignalEvent 1 p0 dt ''EXIT'' 1), Some (SignalEvent 1 p1 dt ''EXIT'' 1)),
                  m\<lparr>long_market := False\<rparr>)
           else if nan_ge zscore_last (zscore_high m) \<and> \<not> short_market m then
             Inr ((Some (SignalEvent 1 p0 dt ''SHORT'' 1), Some (SignalEvent 1 p1 dt ''LONG'' hr)),
                  m\<lparr>short_market := True\<rparr>)
           else if nan_le (nan_abs zscore_last) (zscore_low m) \<and> short_market m then
             Inr ((Some (SignalEvent 1 p0 dt ''EXIT'' 1), Some (SignalEvent 1 p1 dt ''EXIT'' 1)),
                  m\<lparr>short_market := False\<rparr>)
           else Inr ((None, None), m)))"

text \<open>
  \<open>((spread - spread.mean()) / spread.std())[-1]\<close>: the mean and the population
  standard deviation of the spread, and the last standardised residual. A constant spread
  has deviation 0 and gives 0/0, nan. An empty array has no last element.
\<close>

definition zscore_of_last :: "real list \<Rightarrow> error + real option" where
  "zscore_of_last spread =
     (if spread = [] then Inl IndexError
      else
        (let n = real (length spread);
             mu = sum_list spread / n;
             sd = sqrt (sum_list (map (\<lambda>v. (v - mu)\<^sup>2) spread) / n)
         in if sd = 0 then Inr None else Inr (Some ((last spread - mu) / sd))))"

text \<open>
  \<open>sm.OLS(y, x).fit().params[0]\<close> is statsmodels' work: the parameter \<open>ols\<close> is the
  fitted coefficient, or the exception of the fit. statsmodels refuses arrays of different
  lengths with a ValueError.
\<close>

type_synonym olsmr_state = "handler \<times> olsmr_strategy"

definition calculate_signals_for_pairs ::
    "(real list \<Rightarrow> real list \<Rightarrow> error + real) \<Rightarrow> olsmr_state \<Rightarrow>
       (error \<times> olsmr_state) + olsmr_state" where
  "calculate_signals_for_pairs ols st =
     (let h = fst st; m = snd st in
      case get_latest_bars_values h (fst (pair m)) ''close'' (ols_window m) of
        Inl e \<Rightarrow> Inl (e, st)
      | Inr y \<Rightarrow>
          (case get_latest_bars_values h (snd (pair m)) ''close'' (ols_window m) of
             Inl e \<Rightarrow> Inl (e, st)
           | Inr x \<Rightarrow>
               if int (length y) \<ge> ols_window m \<and> int (length x) \<ge> ols_window m then
                 (if length y \<noteq> length x then Inl (ValueError, st)
                  else
                    case ols y x of
                      Inl e \<Rightarrow> Inl (e, st)
                    | Inr b \<Rightarrow>
                        (let m1 = m\<lparr>hedge_ratio := Some b\<rparr>;
                             spread = map2 (\<lambda>yi xi. yi - b * xi) y x
                         in case zscore_of_last spread of
                              Inl e \<Rightarrow> Inl (e, (h, m1))
                            | Inr zscore_last \<Rightarrow>
                                (case calculate_xy_signals zscore_last m1 of
                                   Inl e \<Rightarrow> Inl (e, (h, m1))
                                 | Inr ((Some y_signal, Some x_signal), m2) \<Rightarrow>
                                     Inr (h\<lparr>events := events h @ [y_signal, x_signal]\<rparr>, m2)
                                 | Inr (_, m2) \<Rightarrow> Inr (h, m2))))
               else Inr st))"

definition olsmr_calculate_signals ::
    "(real list \<Rightarrow> real list \<Rightarrow> error + real) \<Rightarrow> event \<Rightarrow> olsmr_state \<Rightarrow>
       (error \<times> olsmr_state) + olsmr_state" where
  "olsmr_calculate_signals ols event st =
     (if etype event = ''MARKET'' then calculate_signals_for_pairs ols st else Inr st)"


section \<open>ib_execution.py: IBExecutionHandler\<close>

text \<open>
  The server messages that \<open>_reply_handler\<close> reads: an \<open>openOrder\<close> message with its order
  id and the contract's symbol and exchange and the order's action; an \<open>orderStatus\<close>
  message with its order id, status, filled quantity and average fill price; any other
  message, of which only the type name is read.
\<close>

datatype ib_message =
    OpenOrder int string string string
  | OrderStatus int string int real
  | OtherMessage string

fun typeName :: "ib_message \<Rightarrow> string" where
  "typeName (OpenOrder _ _ _ _) = ''openOrder''"
| "typeName (OrderStatus _ _ _ _) = ''orderStatus''"
| "typeName (OtherMessage n) = n"

record fill_entry =
  fe_symbol :: string
  fe_exchange :: string
  fe_direction :: string
  fe_filled :: bool

text \<open>
  The handler object, with the attributes that \<open>__init__\<close> assigns and the two methods
  below read: the shared queue, the routing and the currency, the fill dictionary and the
  current order id.
\<close>

record ib_handler =
  ib_events :: "event list"
  order_routing :: string
  currency :: string
  fill_dict :: "int \<rightharpoonup> fill_entry"
  order_id :: int

definition create_fill_dict_entry :: "ib_message \<Rightarrow> ib_handler \<Rightarrow> ib_handler" where
  "create_fill_dict_entry msg h =
     (case msg of
        OpenOrder oid symb exch action \<Rightarrow>
          h\<lparr>fill_dict := (fill_dict h)(oid \<mapsto>
               \<lparr>fe_symbol = symb, fe_exchange = exch, fe_direction = action, fe_filled = False\<rparr>)\<rparr>
      | _ \<Rightarrow> h)"

text \<open>
  \<open>create_fill\<close> reads the entry of the message's order id; \<open>now\<close> is the reading of
  the clock.
\<close>

definition create_fill :: "timestamp \<Rightarrow> ib_message \<Rightarrow> ib_handler \<Rightarrow> error + ib_handler" where
  "create_fill now msg h =
     (case msg of
        OrderStatus oid status filled avgFillPrice \<Rightarrow>
          (case fill_dict h oid of
             None \<Rightarrow> Inl KeyError
           | Some fd \<Rightarrow>
               Inr (h\<lparr>fill_dict := (fill_dict h)(oid \<mapsto> fd\<lparr>fe_filled := True\<rparr>),
                      ib_events := ib_events h @
                        [FillEvent now (fe_symbol fd) (fe_exchange fd) filled
                           (fe_direction fd) avgFillPrice]\<rparr>))
      | _ \<Rightarrow> Inl AttributeError)"

text \<open>
  A call \<open>self.name(msg)\<close> looks the name up on the handler. The class defines two
  methods that take a message besides the handlers themselves, \<open>create_fill_dict_entry\<close>
  and \<open>create_fill\<close>; any other name is not an attribute of the handler, and the call
  raises AttributeError. (Modelled from the spec: the base class ExecutionHandler of the
  missing module \<open>execution.py\<close> has the one operation \<open>execute_order\<close>.)
\<close>

definition call_message_method ::
    "string \<Rightarrow> timestamp \<Rightarrow> ib_message \<Rightarrow> ib_handler \<Rightarrow> error + ib_handler" where
  "call_message_method name now msg h =
     (if name = ''create_fill_dict_entry'' then Inr (create_fill_dict_entry msg h)
      else if name = ''create_fill'' then create_fill now msg h
      else Inl AttributeError)"

text \<open>
  \<open>_reply_handler\<close>. \<open>not self.fill_dict.get(id)\<close> is true when the id has no entry (an
  entry is a non-empty dictionary); \<open>.get(id, {}).get("filled") is False\<close> is true when
  the id has an entry whose flag is False. The two helpers are called under the names
  \<open>_create_fill_dict_entry\<close> and \<open>_create_fill\<close>.
\<close>

definition reply_handler :: "timestamp \<Rightarrow> ib_message \<Rightarrow> ib_handler \<Rightarrow> error + ib_handler" where
  "reply_handler now msg h =
     (case msg of
        OpenOrder oid symb exch action \<Rightarrow>
          if oid = order_id h \<and> fill_dict h oid = None
          then call_message_method ''_create_fill_dict_entry'' now msg h else Inr h
      | OrderStatus oid status filled avgFillPrice \<Rightarrow>
          if status = ''Filled'' \<and>
             (case fill_dict h oid of None \<Rightarrow> False | Some fd \<Rightarrow> \<not> fe_filled fd)
          then call_message_method ''_create_fill'' now msg h else Inr h
      | OtherMessage n \<Rightarrow> Inr h)"


section \<open>backtest.py: Backtest\<close>

text \<open>
  The four collaborators are classes handed to the constructor. Their objects are one
  value \<open>w\<close>, and each of their methods is a function of it that returns the new value
  with the events it has put on the queue, in order, or the exception it has raised.
\<close>

record 'w roles =
  continue_backtest_of :: "'w \<Rightarrow> bool"
  update_bars_of :: "'w \<Rightarrow> error + 'w \<times> event list"
  calculate_signals_of :: "event \<Rightarrow> 'w \<Rightarrow> error + 'w \<times> event list"
  update_timeindex_of :: "event \<Rightarrow> 'w \<Rightarrow> error + 'w \<times> event list"
  update_signal_of :: "event \<Rightarrow> 'w \<Rightarrow> error + 'w \<times> event list"
  execute_order_of :: "event \<Rightarrow> 'w \<Rightarrow> error + 'w \<times> event list"
  update_fill_of :: "event \<Rightarrow> 'w \<Rightarrow> error + 'w \<times> event list"

record 'w backtest =
  bt_events :: "event list"
  signals :: nat
  orders :: nat
  fills :: nat
  world :: "'w"

definition handle_market_event :: "'w roles \<Rightarrow> event \<Rightarrow> 'w backtest \<Rightarrow> error + 'w backtest" where
  "handle_market_event R event b =
     (case calculate_signals_of R event (world b) of
        Inl e \<Rightarrow> Inl e
      | Inr (w1, evs1) \<Rightarrow>
          (case update_timeindex_of R event w1 of
             Inl e \<Rightarrow> Inl e
           | Inr (w2, evs2) \<Rightarrow> Inr (b\<lparr>world := w2, bt_events := bt_events b @ evs1 @ evs2\<rparr>)))"

definition handle_signal_event :: "'w roles \<Rightarrow> event \<Rightarrow> 'w backtest \<Rightarrow> error + 'w backtest" where
  "handle_signal_event R event b =
     (case update_signal_of R event (world b) of
        Inl e \<Rightarrow> Inl e
      | Inr (w1, evs) \<Rightarrow>
          Inr (b\<lparr>signals := signals b + 1, world := w1, bt_events := bt_events b @ evs\<rparr>))"

definition handle_order_event :: "'w roles \<Rightarrow> event \<Rightarrow> 'w backtest \<Rightarrow> error + 'w backtest" where
  "handle_order_event R event b =
     (case execute_order_of R event (world b) of
        Inl e \<Rightarrow> Inl e
      | Inr (w1, evs) \<Rightarrow>
          Inr (b\<lparr>orders := orders b + 1, world := w1, bt_events := bt_events b @ evs\<rparr>))"

definition handle_fill_event :: "'w roles \<Rightarrow> event \<Rightarrow> 'w backtest \<Rightarrow> error + 'w backtest" where
  "handle_fill_event R event b =
     (case update_fill_of R event (world b) of
        Inl e \<Rightarrow> Inl e
      | Inr (w1, evs) \<Rightarrow>
          Inr (b\<lparr>fills := fills b + 1, world := w1, bt_events := bt_events b @ evs\<rparr>))"

text \<open>The \<open>if\<close>/\<open>elif\<close> chain on \<open>event.type\<close> in the inner loop.\<close>

definition dispatch :: "'w roles \<Rightarrow> event \<Rightarrow> 'w backtest \<Rightarrow> error + 'w backtest" where
  "dispatch R event b =
     (if etype event = ''MARKET'' then handle_market_event R event b
      else if etype event = ''SIGNAL'' then handle_signal_event R event b
      else if etype event = ''ORDER'' then handle_order_event R event b
      else if etype event = ''FILL'' then handle_fill_event R event b
      else Inr b)"

text \<open>
  The inner \<open>while True\<close> loop: \<open>events.get(False)\<close> takes the oldest event, and
  \<open>queue.Empty\<close> ends the loop. A handler that raises ends the run with its exception.
  The loop need not end, so its result is an option.
\<close>

partial_function (option) drain :: "'w roles \<Rightarrow> 'w backtest \<Rightarrow> (error + 'w backtest) option" where
  "drain R b =
     (case bt_events b of
        [] \<Rightarrow> Some (Inr b)
      | event # rest \<Rightarrow>
          (case dispatch R event (b\<lparr>bt_events := rest\<rparr>) of
             Inl e \<Rightarrow> Some (Inl e)
           | Inr b' \<Rightarrow> drain R b'))"

text \<open>
  \<open>_run_backtest\<close>: the outer \<open>while True\<close> loop (the printed iteration count and the
  heartbeat sleep change nothing).
\<close>

partial_function (option) run_backtest ::
    "'w roles \<Rightarrow> 'w backtest \<Rightarrow> (error + 'w backtest) option" where
  "run_backtest R b =
     (if continue_backtest_of R (world b) then
        (case update_bars_of R (world b) of
           Inl e \<Rightarrow> Some (Inl e)
         | Inr (w, evs) \<Rightarrow>
             Option.bind (drain R (b\<lparr>world := w, bt_events := bt_events b @ evs\<rparr>))
               (\<lambda>r. case r of Inl e \<Rightarrow> Some (Inl e) | Inr b' \<Rightarrow> run_backtest R b'))
      else Some (Inr b))"

text \<open>
  The place of an event in the cascade Market, Signal, Order, Fill, and the roles whose
  methods put only events that come later in the cascade than the event they handle.
\<close>

fun rank :: "event \<Rightarrow> nat" where
  "rank MarketEvent = 3"
| "rank (SignalEvent _ _ _ _ _) = 2"
| "rank (OrderEvent _ _ _ _) = 1"
| "rank (FillEvent _ _ _ _ _ _) = 0"

definition puts_below ::
    "nat \<Rightarrow> (event \<Rightarrow> 'w \<Rightarrow> error + 'w \<times> event list) \<Rightarrow> bool" where
  "puts_below k f \<longleftrightarrow> (\<forall>e w w' evs. f e w = Inr (w', evs) \<longrightarrow> (\<forall>x \<in> set evs. rank x < k))"

definition cascading :: "'w roles \<Rightarrow> bool" where
  "cascading R \<longleftrightarrow>
     puts_below 3 (calculate_signals_of R) \<and> puts_below 3 (update_timeindex_of R) \<and>
     puts_below 2 (update_signal_of R) \<and> puts_below 1 (execute_order_of R) \<and>
     puts_below 0 (update_fill_of R)"


text \<open>
  The inner loop as a relation: \<open>drains R b es ps b'\<close> holds when the loop, started in
  \<open>b\<close>, takes and dispatches exactly the events \<open>es\<close>, in this order, the handlers put
  the events \<open>ps\<close> on the queue meanwhile, and the loop ends in \<open>b'\<close> on an empty queue.
\<close>

inductive drains :: "'w roles \<Rightarrow> 'w backtest \<Rightarrow> event list \<Rightarrow> event list \<Rightarrow> 'w backtest \<Rightarrow> bool"
  for R :: "'w roles" where
  drains_empty: "bt_events b = [] \<Longrightarrow> drains R b [] [] b"
| drains_pop:
    "bt_events b = event # rest \<Longrightarrow>
     dispatch R event (b\<lparr>bt_events := rest\<rparr>) = Inr b1 \<Longrightarrow>
     bt_events b1 = rest @ new \<Longrightarrow>
     drains R b1 es ps b' \<Longrightarrow>
     drains R b (event # es) (new @ ps) b'"

code_pred drains .

text \<open>
  The inner loop ending in an exception: \<open>drain_raises R b es e\<close> holds when the loop,
  started in \<open>b\<close>, takes the events \<open>es\<close>, in this order, and the dispatch of the last of
  them raises \<open>e\<close>.
\<close>

inductive drain_raises :: "'w roles \<Rightarrow> 'w backtest \<Rightarrow> event list \<Rightarrow> error \<Rightarrow> bool"
  for R :: "'w roles" where
  raises_now:
    "bt_events b = event # rest \<Longrightarrow>
     dispatch R event (b\<lparr>bt_events := rest\<rparr>) = Inl e \<Longrightarrow>
     drain_raises R b [event] e"
| raises_later:
    "bt_events b = event # rest \<Longrightarrow>
     dispatch R event (b\<lparr>bt_events := rest\<rparr>) = Inr b1 \<Longrightarrow>
     drain_raises R b1 es e \<Longrightarrow>
     drain_raises R b (event # es) e"

code_pred drain_raises .

section \<open>Example data\<close>

text \<open>A bar at time \<open>t\<close> whose prices are all \<open>p\<close>, for the worked examples below.\<close>

definition flat_bar :: "timestamp \<Rightarrow> real \<Rightarrow> bar" where
  "flat_bar t p =
     (t, \<lparr>bar_open = p, bar_high = p, bar_low = p, bar_close = p, bar_volume = 0,
          bar_adj_close = p\<rparr>)"

text \<open>Reindexed frames in which every symbol has the price \<open>p\<close> at every index value.\<close>

definition flat_rows :: "real \<Rightarrow> string \<Rightarrow> timestamp \<Rightarrow> row" where
  "flat_rows p s t = snd (flat_bar t p)"

text \<open>A handler that tracks \<open>syms\<close>, with the given history and rows to come for each.\<close>

definition handler_with :: "string list \<Rightarrow> (string \<times> bar list \<times> bar list) list \<Rightarrow> handler" where
  "handler_with syms tab =
     \<lparr> symbol_list = syms,
       symbol_data = map_option snd \<circ> map_of tab,
       latest_symbol_data = map_option fst \<circ> map_of tab,
       continue_backtest = True,
       events = [] \<rparr>"


text \<open>
  A fit for the worked examples: least squares through the origin, the coefficient of a
  regression of \<open>y\<close> on \<open>x\<close> without a constant column (0 when \<open>x\<close> is all zero).
\<close>

definition ols_origin :: "real list \<Rightarrow> real list \<Rightarrow> error + real" where
  "ols_origin y x =
     (if sum_list (map2 (*) x x) = 0 then Inr 0
      else Inr (sum_list (map2 (*) y x) / sum_list (map2 (*) x x)))"

text \<open>A handler with the observed closes of the pair AREX and WLL at the times 1, 2.\<close>

definition pair_handler :: "real \<Rightarrow> real \<Rightarrow> real \<Rightarrow> real \<Rightarrow> handler" where
  "pair_handler y1 y2 x1 x2 =
     handler_with [''AREX'', ''WLL'']
       [(''AREX'', [flat_bar 1 y1, flat_bar 2 y2], []),
        (''WLL'', [flat_bar 1 x1, flat_bar 2 x2], [])]"

text \<open>
  Roles for a worked run of two bars. Their value is the list of the calls made so far:
  every method adds its name. The strategy puts one signal per Market event, the
  portfolio one order per signal, the execution handler one fill per order.
\<close>

definition example_roles :: "string list roles" where
  "example_roles =
     \<lparr> continue_backtest_of = (\<lambda>w. length (filter (\<lambda>n. n = ''update_bars'') w) < 2),
       update_bars_of = (\<lambda>w. Inr (w @ [''update_bars''], [MarketEvent])),
       calculate_signals_of =
         (\<lambda>e w. Inr (w @ [''calculate_signals''], [SignalEvent 1 ''AAPL'' 0 ''LONG'' 1])),
       update_timeindex_of = (\<lambda>e w. Inr (w @ [''update_timeindex''], [])),
       update_signal_of =
         (\<lambda>e w. Inr (w @ [''update_signal''], [OrderEvent ''AAPL'' ''MKT'' 100 ''BUY''])),
       execute_order_of =
         (\<lambda>e w. Inr (w @ [''execute_order''], [FillEvent 0 ''AAPL'' ''ARCA'' 100 ''BUY'' 0])),
       update_fill_of = (\<lambda>e w. Inr (w @ [''update_fill''], [])) \<rparr>"

text \<open>
  A backtest of the pairs strategy on the historic bar source. The queue that the handler
  and the strategy hold is the orchestrator's: each method runs on an empty view of it,
  and what it has put there goes to the orchestrator's queue. The portfolio and the
  execution handler (their modules are missing) are stand-ins that do nothing.
\<close>

definition idle_method :: "event \<Rightarrow> 'w \<Rightarrow> error + 'w \<times> event list" where
  "idle_method ev w = Inr (w, [])"

definition pairs_roles :: "(real list \<Rightarrow> real list \<Rightarrow> error + real) \<Rightarrow> olsmr_state roles" where
  "pairs_roles ols =
     \<lparr> continue_backtest_of = (\<lambda>st. continue_backtest (fst st)),
       update_bars_of =
         (\<lambda>st. case update_bars ((fst st)\<lparr>events := []\<rparr>) of
                 Inl e \<Rightarrow> Inl e
               | Inr h' \<Rightarrow> Inr ((h'\<lparr>events := []\<rparr>, snd st), events h')),
       calculate_signals_of =
         (\<lambda>ev st. case olsmr_calculate_signals ols ev ((fst st)\<lparr>events := []\<rparr>, snd st) of
                    Inl (e, st') \<Rightarrow> Inl e
                  | Inr st' \<Rightarrow> Inr (((fst st')\<lparr>events := []\<rparr>, snd st'), events (fst st'))),
       update_timeindex_of = idle_method,
       update_signal_of = idle_method,
       execute_order_of = idle_method,
       update_fill_of = idle_method \<rparr>"


section \<open>Properties of the bar source\<close>

lemma slice_from_last: "1 \<le> N \<Longrightarrow> slice_from (- N) xs = drop (length xs - nat N) xs"
  by (auto simp: slice_from_def nat_diff_distrib' intro: arg_cong[where f="\<lambda>n. drop n xs"])

lemma map_err_Inr_nth:
  "map_err f xs = Inr ys \<Longrightarrow>
     length ys = length xs \<and> (\<forall>i < length xs. f (xs ! i) = Inr (ys ! i))"
proof (induction xs arbitrary: ys)
  case Nil
  then show ?case by simp
next
  case (Cons x xs)
  then show ?case
    by (auto split: sum.splits simp: nth_Cons split: nat.splits)
qed

lemma map_err_defined:
  "(\<forall>x \<in> set xs. \<exists>v. f x = Inr v) \<Longrightarrow> \<exists>ys. map_err f xs = Inr ys"
  by (induction xs) auto

lemma getattr_row_field:
  "val_type \<in> set bar_fields \<Longrightarrow> \<exists>v. getattr_row r val_type = Inr v"
  by (auto simp: bar_fields_def getattr_row_def)

text \<open>
  What the constructor leaves: the listed symbols are distinct, each has its two entries,
  and all row iterators have one length, that of the union index.
\<close>

lemma handler_init:
  assumes "HistoricCSVDataHandler evs comb_index padded syms = Inr h"
  shows "handler_ok h \<and> distinct (symbol_list h) \<and> synchronised h \<and>
         symbol_list h = syms \<and> continue_backtest h \<and> events h = evs \<and>
         (\<forall>s \<in> set syms. latest_symbol_data h s = Some [])"
proof -
  have d: "distinct syms"
    using assms by (auto simp: HistoricCSVDataHandler_def split: if_splits)
  then have h: "h = \<lparr> symbol_list = syms,
              symbol_data =
                (\<lambda>s. if s \<in> set syms then Some (map (\<lambda>t. (t, padded s t)) comb_index) else None),
              latest_symbol_data = (\<lambda>s. if s \<in> set syms then Some [] else None),
              continue_backtest = True,
              events = evs \<rparr>"
    using assms by (simp add: HistoricCSVDataHandler_def)
  show ?thesis
    unfolding h using d by (auto simp: handler_ok_def synchronised_def dom_def)
qed

text \<open>
  What the loop of \<open>update_bars\<close> does to a handler in which every symbol of the list has
  its two entries: a symbol that occurs \<open>k\<close> times in the list gives up its next \<open>k\<close>
  rows (as many as are left), and the flag falls when an iterator is found empty.
\<close>

lemma update_loop_result:
  assumes "set ss \<subseteq> dom (symbol_data h)" and "set ss \<subseteq> dom (latest_symbol_data h)"
  shows "\<exists>h'. update_loop ss h = Inr h' \<and>
           events h' = events h \<and> symbol_list h' = symbol_list h \<and>
           dom (symbol_data h') = dom (symbol_data h) \<and>
           dom (latest_symbol_data h') = dom (latest_symbol_data h) \<and>
           (\<forall>s rest. symbol_data h s = Some rest \<longrightarrow>
              symbol_data h' s = Some (drop (count_list ss s) rest)) \<and>
           (\<forall>s bl rest. latest_symbol_data h s = Some bl \<longrightarrow> symbol_data h s = Some rest \<longrightarrow>
              latest_symbol_data h' s = Some (bl @ take (count_list ss s) rest)) \<and>
           (continue_backtest h' \<longleftrightarrow>
              continue_backtest h \<and>
              (\<forall>s \<in> set ss. \<forall>rest. symbol_data h s = Some rest \<longrightarrow> count_list ss s \<le> length rest))"
  using assms
proof (induction ss arbitrary: h)
  case Nil
  then show ?case by simp
next
  case (Cons a ss)
  from Cons.prems obtain rest bl where
    rest: "symbol_data h a = Some rest" and bl: "latest_symbol_data h a = Some bl"
    by auto
  show ?case
  proof (cases rest)
    case Nil
    let ?h1 = "h\<lparr>continue_backtest := False\<rparr>"
    have step: "update_loop (a # ss) h = update_loop ss ?h1"
      using rest Nil by simp
    have "set ss \<subseteq> dom (symbol_data ?h1)" "set ss \<subseteq> dom (latest_symbol_data ?h1)"
      using Cons.prems by auto
    from Cons.IH[OF this] obtain h' where
      h0: "update_loop ss ?h1 = Inr h'" "events h' = events ?h1" "symbol_list h' = symbol_list ?h1"
        "dom (symbol_data h') = dom (symbol_data ?h1)"
        "dom (latest_symbol_data h') = dom (latest_symbol_data ?h1)"
        "\<forall>s rest. symbol_data ?h1 s = Some rest \<longrightarrow>
              symbol_data h' s = Some (drop (count_list ss s) rest)"
        "\<forall>s bl rest. latest_symbol_data ?h1 s = Some bl \<longrightarrow> symbol_data ?h1 s = Some rest \<longrightarrow>
              latest_symbol_data h' s = Some (bl @ take (count_list ss s) rest)"
        "continue_backtest h' \<longleftrightarrow>
              continue_backtest ?h1 \<and>
              (\<forall>s \<in> set ss. \<forall>rest. symbol_data ?h1 s = Some rest \<longrightarrow> count_list ss s \<le> length rest)"
      by blast
    have h': "update_loop ss ?h1 = Inr h'" "events h' = events h" "symbol_list h' = symbol_list h"
        "dom (symbol_data h') = dom (symbol_data h)"
        "dom (latest_symbol_data h') = dom (latest_symbol_data h)"
        "\<forall>s rest. symbol_data h s = Some rest \<longrightarrow>
              symbol_data h' s = Some (drop (count_list ss s) rest)"
        "\<forall>s bl rest. latest_symbol_data h s = Some bl \<longrightarrow> symbol_data h s = Some rest \<longrightarrow>
              latest_symbol_data h' s = Some (bl @ take (count_list ss s) rest)"
        "\<not> continue_backtest h'"
      using h0 by simp_all
    have sd: "\<forall>s rest. symbol_data h s = Some rest \<longrightarrow>
              symbol_data h' s = Some (drop (count_list (a # ss) s) rest)"
      using h'(6) rest Nil by auto
    have ld: "\<forall>s bl rest. latest_symbol_data h s = Some bl \<longrightarrow> symbol_data h s = Some rest \<longrightarrow>
              latest_symbol_data h' s = Some (bl @ take (count_list (a # ss) s) rest)"
      using h'(7) rest Nil by auto
    have "\<not> (\<forall>s \<in> set (a # ss). \<forall>rest. symbol_data h s = Some rest \<longrightarrow>
                       count_list (a # ss) s \<le> length rest)"
      using rest Nil by auto
    then show ?thesis
      unfolding step using h'(1,2,3,4,5,8) sd ld by blast
  next
    case (Cons b bs)
    let ?h1 = "h\<lparr>symbol_data := (symbol_data h)(a \<mapsto> bs),
                  latest_symbol_data := (latest_symbol_data h)(a \<mapsto> bl @ [b])\<rparr>"
    have step: "update_loop (a # ss) h = update_loop ss ?h1"
      using rest bl Cons by simp
    have "set ss \<subseteq> dom (symbol_data ?h1)" "set ss \<subseteq> dom (latest_symbol_data ?h1)"
      using Cons.prems by auto
    from Cons.IH[OF this] obtain h' where
      h': "update_loop ss ?h1 = Inr h'" "events h' = events ?h1" "symbol_list h' = symbol_list ?h1"
        "dom (symbol_data h') = dom (symbol_data ?h1)"
        "dom (latest_symbol_data h') = dom (latest_symbol_data ?h1)"
        "\<forall>s rest. symbol_data ?h1 s = Some rest \<longrightarrow>
              symbol_data h' s = Some (drop (count_list ss s) rest)"
        "\<forall>s bl rest. latest_symbol_data ?h1 s = Some bl \<longrightarrow> symbol_data ?h1 s = Some rest \<longrightarrow>
              latest_symbol_data h' s = Some (bl @ take (count_list ss s) rest)"
        "continue_backtest h' \<longleftrightarrow>
              continue_backtest ?h1 \<and>
              (\<forall>s \<in> set ss. \<forall>rest. symbol_data ?h1 s = Some rest \<longrightarrow> count_list ss s \<le> length rest)"
      by blast
    have e1: "events h' = events h" "symbol_list h' = symbol_list h"
      using h'(2,3) by simp_all
    have d1: "dom (symbol_data h') = dom (symbol_data h)"
      using h'(4) rest by auto
    have d2: "dom (latest_symbol_data h') = dom (latest_symbol_data h)"
      using h'(5) bl by auto
    have sd: "\<forall>s rest. symbol_data h s = Some rest \<longrightarrow>
              symbol_data h' s = Some (drop (count_list (a # ss) s) rest)"
      using h'(6) rest Cons by auto
    have ld: "\<forall>s bl rest. latest_symbol_data h s = Some bl \<longrightarrow> symbol_data h s = Some rest \<longrightarrow>
              latest_symbol_data h' s = Some (bl @ take (count_list (a # ss) s) rest)"
      using h'(7) rest bl Cons by auto
    have "(\<forall>s \<in> set ss. \<forall>rest. symbol_data ?h1 s = Some rest \<longrightarrow> count_list ss s \<le> length rest)
          \<longleftrightarrow> (\<forall>s \<in> set (a # ss). \<forall>rest. symbol_data h s = Some rest \<longrightarrow>
                       count_list (a # ss) s \<le> length rest)"
      using rest Cons by (auto simp: count_list_0_iff Suc_le_eq)
    then have cb: "continue_backtest h' \<longleftrightarrow>
              continue_backtest h \<and>
              (\<forall>s \<in> set (a # ss). \<forall>rest. symbol_data h s = Some rest \<longrightarrow>
                       count_list (a # ss) s \<le> length rest)"
      using h'(8) by simp
    show ?thesis
      unfolding step using h'(1) e1 d1 d2 sd ld cb by blast
  qed
qed


lemma count_list_distinct: "distinct xs \<Longrightarrow> x \<in> set xs \<Longrightarrow> count_list xs x = 1"
  by (induction xs) (auto simp: count_list_0_iff)

text \<open>
  One call of \<open>update_bars\<close>, symbol by symbol, for a handler whose listed symbols are
  distinct and have their entries.
\<close>

lemma update_bars_effect:
  assumes "handler_ok h" and "distinct (symbol_list h)"
  shows "\<exists>h'. update_bars h = Inr h' \<and>
           events h' = events h @ [MarketEvent] \<and>
           (\<forall>s \<in> set (symbol_list h). \<forall>bl rest.
              latest_symbol_data h s = Some bl \<longrightarrow> symbol_data h s = Some rest \<longrightarrow>
                latest_symbol_data h' s = Some (bl @ take 1 rest) \<and>
                symbol_data h' s = Some (drop 1 rest)) \<and>
           (continue_backtest h' \<longleftrightarrow>
              continue_backtest h \<and> (\<forall>s \<in> set (symbol_list h). symbol_data h s \<noteq> Some [])) \<and>
           handler_ok h' \<and> symbol_list h' = symbol_list h"
proof -
  let ?ss = "symbol_list h"
  have sub: "set ?ss \<subseteq> dom (symbol_data h)" "set ?ss \<subseteq> dom (latest_symbol_data h)"
    using assms(1) by (simp_all add: handler_ok_def)
  from update_loop_result[OF sub] obtain h1 where
    h1: "update_loop ?ss h = Inr h1" "events h1 = events h" "symbol_list h1 = symbol_list h"
      "dom (symbol_data h1) = dom (symbol_data h)"
      "dom (latest_symbol_data h1) = dom (latest_symbol_data h)"
      "\<forall>s rest. symbol_data h s = Some rest \<longrightarrow>
              symbol_data h1 s = Some (drop (count_list ?ss s) rest)"
      "\<forall>s bl rest. latest_symbol_data h s = Some bl \<longrightarrow> symbol_data h s = Some rest \<longrightarrow>
              latest_symbol_data h1 s = Some (bl @ take (count_list ?ss s) rest)"
      "continue_backtest h1 \<longleftrightarrow>
              continue_backtest h \<and>
              (\<forall>s \<in> set ?ss. \<forall>rest. symbol_data h s = Some rest \<longrightarrow> count_list ?ss s \<le> length rest)"
    by blast
  let ?h' = "h1\<lparr>events := events h1 @ [MarketEvent]\<rparr>"
  have res: "update_bars h = Inr ?h'"
    by (simp add: update_bars_def h1(1))
  have ev: "events ?h' = events h @ [MarketEvent]"
    by (simp add: h1(2))
  have one: "\<forall>s \<in> set ?ss. count_list ?ss s = 1"
    using assms(2) by (simp add: count_list_distinct)
  have grow: "\<forall>s \<in> set ?ss. \<forall>bl rest.
              latest_symbol_data h s = Some bl \<longrightarrow> symbol_data h s = Some rest \<longrightarrow>
                latest_symbol_data ?h' s = Some (bl @ take 1 rest) \<and>
                symbol_data ?h' s = Some (drop 1 rest)"
    using h1(6,7) one by simp
  have "(\<forall>s \<in> set ?ss. \<forall>rest. symbol_data h s = Some rest \<longrightarrow> count_list ?ss s \<le> length rest)
        \<longleftrightarrow> (\<forall>s \<in> set ?ss. symbol_data h s \<noteq> Some [])"
  proof -
    have "\<And>s. s \<in> set ?ss \<Longrightarrow>
            (\<forall>rest. symbol_data h s = Some rest \<longrightarrow> count_list ?ss s \<le> length rest)
            \<longleftrightarrow> symbol_data h s \<noteq> Some []"
    proof -
      fix s assume "s \<in> set ?ss"
      then have c: "count_list ?ss s = 1" using one by blast
      show "(\<forall>rest. symbol_data h s = Some rest \<longrightarrow> count_list ?ss s \<le> length rest)
            \<longleftrightarrow> symbol_data h s \<noteq> Some []"
        unfolding c by (cases "symbol_data h s") (auto simp: Suc_le_eq)
    qed
    then show ?thesis by blast
  qed
  then have flag: "continue_backtest ?h' \<longleftrightarrow>
              continue_backtest h \<and> (\<forall>s \<in> set ?ss. symbol_data h s \<noteq> Some [])"
    using h1(8) by simp
  have ok: "handler_ok ?h'"
    using assms(1) h1(3,4,5) by (simp add: handler_ok_def)
  have sl: "symbol_list ?h' = symbol_list h"
    by (simp add: h1(3))
  show ?thesis
    using res ev grow flag ok sl by blast
qed

text \<open>
  Claim C1, as the code has it. For a handler as the constructor and earlier calls leave
  it (listed symbols distinct, each with its entries, all row iterators of one length),
  \<open>update_bars\<close> puts exactly one MarketEvent on the queue at every call. If no listed
  symbol's series is exhausted, every listed symbol's history grows by exactly the next
  bar and the flag is as before. If a listed symbol's series is exhausted, no history and
  no iterator changes (there is no partial step), the flag \<open>continue_backtest\<close> is false
  afterwards, and the MarketEvent is put on the queue all the same. A flag that is false
  stays false.
\<close>

theorem update_bars_step:
  assumes "handler_ok h" and "distinct (symbol_list h)" and "synchronised h"
  shows "\<exists>h'. update_bars h = Inr h' \<and>
           events h' = events h @ [MarketEvent] \<and>
           symbol_list h' = symbol_list h \<and>
           handler_ok h' \<and> synchronised h' \<and>
           (\<not> continue_backtest h \<longrightarrow> \<not> continue_backtest h') \<and>
           ((\<forall>s \<in> set (symbol_list h). symbol_data h s \<noteq> Some []) \<longrightarrow>
              continue_backtest h' = continue_backtest h \<and>
              (\<forall>s \<in> set (symbol_list h). \<exists>bl b rest.
                 latest_symbol_data h s = Some bl \<and> symbol_data h s = Some (b # rest) \<and>
                 latest_symbol_data h' s = Some (bl @ [b]) \<and> symbol_data h' s = Some rest)) \<and>
           ((\<exists>s \<in> set (symbol_list h). symbol_data h s = Some []) \<longrightarrow>
              \<not> continue_backtest h' \<and>
              latest_symbol_data h' = latest_symbol_data h \<and> symbol_data h' = symbol_data h)"
proof -
  let ?ss = "symbol_list h"
  from update_bars_effect[OF assms(1,2)] obtain h' where
    h': "update_bars h = Inr h'" "events h' = events h @ [MarketEvent]"
      "\<forall>s \<in> set ?ss. \<forall>bl rest.
         latest_symbol_data h s = Some bl \<longrightarrow> symbol_data h s = Some rest \<longrightarrow>
           latest_symbol_data h' s = Some (bl @ take 1 rest) \<and>
           symbol_data h' s = Some (drop 1 rest)"
      "continue_backtest h' \<longleftrightarrow>
         continue_backtest h \<and> (\<forall>s \<in> set ?ss. symbol_data h s \<noteq> Some [])"
      "handler_ok h'" "symbol_list h' = symbol_list h"
    by blast
  have ent: "\<And>s. s \<in> set ?ss \<Longrightarrow>
               \<exists>bl rest. latest_symbol_data h s = Some bl \<and> symbol_data h s = Some rest"
    using assms(1) by (auto simp: handler_ok_def)
  have step: "\<And>s bl rest. s \<in> set ?ss \<Longrightarrow> latest_symbol_data h s = Some bl \<Longrightarrow>
                symbol_data h s = Some rest \<Longrightarrow>
                latest_symbol_data h' s = Some (bl @ take 1 rest) \<and>
                symbol_data h' s = Some (drop 1 rest)"
    using h'(3) by blast
  have sync: "synchronised h'"
    unfolding synchronised_def h'(6)
  proof (intro ballI)
    fix s t assume st: "s \<in> set ?ss" "t \<in> set ?ss"
    from ent[OF st(1)] obtain bls rs where
      s: "latest_symbol_data h s = Some bls" "symbol_data h s = Some rs" by blast
    from ent[OF st(2)] obtain blt rt where
      t: "latest_symbol_data h t = Some blt" "symbol_data h t = Some rt" by blast
    have "map_option length (symbol_data h s) = map_option length (symbol_data h t)"
      using assms(3) st unfolding synchronised_def by blast
    then have "length rs = length rt"
      using s(2) t(2) by simp
    moreover have "symbol_data h' s = Some (drop 1 rs)" "symbol_data h' t = Some (drop 1 rt)"
      using step[OF st(1) s] step[OF st(2) t] by simp_all
    ultimately show "map_option length (symbol_data h' s) = map_option length (symbol_data h' t)"
      by simp
  qed
  have once: "\<not> continue_backtest h \<longrightarrow> \<not> continue_backtest h'"
    using h'(4) by simp
  have live: "(\<forall>s \<in> set ?ss. symbol_data h s \<noteq> Some []) \<longrightarrow>
              continue_backtest h' = continue_backtest h \<and>
              (\<forall>s \<in> set ?ss. \<exists>bl b rest.
                 latest_symbol_data h s = Some bl \<and> symbol_data h s = Some (b # rest) \<and>
                 latest_symbol_data h' s = Some (bl @ [b]) \<and> symbol_data h' s = Some rest)"
  proof (intro impI conjI ballI)
    assume a: "\<forall>s \<in> set ?ss. symbol_data h s \<noteq> Some []"
    then show "continue_backtest h' = continue_backtest h"
      using h'(4) by simp
    fix s assume sin: "s \<in> set ?ss"
    from ent[OF sin] obtain bl rs where
      s: "latest_symbol_data h s = Some bl" "symbol_data h s = Some rs" by blast
    with a sin obtain b rest where rs: "rs = b # rest"
      by (cases rs) auto
    have "latest_symbol_data h' s = Some (bl @ [b]) \<and> symbol_data h' s = Some rest"
      using step[OF sin s] rs by simp
    then show "\<exists>bl b rest.
                 latest_symbol_data h s = Some bl \<and> symbol_data h s = Some (b # rest) \<and>
                 latest_symbol_data h' s = Some (bl @ [b]) \<and> symbol_data h' s = Some rest"
      using s rs by blast
  qed
  have dead: "(\<exists>s \<in> set ?ss. symbol_data h s = Some []) \<longrightarrow>
              \<not> continue_backtest h' \<and>
              latest_symbol_data h' = latest_symbol_data h \<and> symbol_data h' = symbol_data h"
  proof (intro impI)
    assume "\<exists>s \<in> set ?ss. symbol_data h s = Some []"
    then obtain s0 where s0: "s0 \<in> set ?ss" "symbol_data h s0 = Some []" by blast
    have flag: "\<not> continue_backtest h'"
      using h'(4) s0 by blast
    have none: "\<And>t. t \<in> set ?ss \<Longrightarrow> symbol_data h t = Some []"
    proof -
      fix t assume tin: "t \<in> set ?ss"
      from ent[OF tin] obtain rt where t: "symbol_data h t = Some rt" by blast
      have "map_option length (symbol_data h s0) = map_option length (symbol_data h t)"
        using assms(3) s0(1) tin unfolding synchronised_def by blast
      then have "length rt = 0"
        using s0(2) t by simp
      then show "symbol_data h t = Some []"
        using t by simp
    qed
    have same: "\<And>t. latest_symbol_data h' t = latest_symbol_data h t \<and>
                     symbol_data h' t = symbol_data h t"
    proof -
      fix t
      show "latest_symbol_data h' t = latest_symbol_data h t \<and> symbol_data h' t = symbol_data h t"
      proof (cases "t \<in> set ?ss")
        case True
        from ent[OF True] obtain blt rt where
          t: "latest_symbol_data h t = Some blt" "symbol_data h t = Some rt" by blast
        have "rt = []"
          using none[OF True] t(2) by simp
        then show ?thesis
          using step[OF True t] t by simp
      next
        case False
        then have "t \<notin> dom (latest_symbol_data h)" "t \<notin> dom (symbol_data h)"
          "t \<notin> dom (latest_symbol_data h')" "t \<notin> dom (symbol_data h')"
          using assms(1) h'(5,6) by (simp_all add: handler_ok_def)
        then show ?thesis
          by (simp add: domIff)
      qed
    qed
    have "latest_symbol_data h' = latest_symbol_data h" "symbol_data h' = symbol_data h"
      using same by (simp_all add: fun_eq_iff)
    then show "\<not> continue_backtest h' \<and>
              latest_symbol_data h' = latest_symbol_data h \<and> symbol_data h' = symbol_data h"
      using flag by simp
  qed
  show ?thesis
    using h'(1,2,5,6) sync once live dead by blast
qed

text \<open>
  The first call on a new handler for AAPL and MSFT over the index 1, 2: both histories
  gain the bar of time 1, one MarketEvent is on the queue, the flag is still true.
\<close>

theorem update_bars_step_witness:
  "(case HistoricCSVDataHandler [] [1, 2] (flat_rows 10) [''AAPL'', ''MSFT''] of
      Inl e \<Rightarrow> False
    | Inr h \<Rightarrow>
        handler_ok h \<and> distinct (symbol_list h) \<and> synchronised h \<and>
        (case update_bars h of
           Inl e \<Rightarrow> False
         | Inr h' \<Rightarrow>
             events h' = [MarketEvent] \<and> continue_backtest h' \<and>
             latest_symbol_data h' ''AAPL'' = Some [flat_bar 1 10] \<and>
             latest_symbol_data h' ''MSFT'' = Some [flat_bar 1 10] \<and>
             symbol_data h' ''AAPL'' = Some [flat_bar 2 10]))"
proof -
  obtain h where h: "HistoricCSVDataHandler [] [1, 2] (flat_rows 10) [''AAPL'', ''MSFT''] = Inr h"
    by (simp add: HistoricCSVDataHandler_def)
  from handler_init[OF h] have
    inv: "handler_ok h" "distinct (symbol_list h)" "synchronised h"
    and sl: "symbol_list h = [''AAPL'', ''MSFT'']" and cb: "continue_backtest h"
    and ev: "events h = []"
    and lat: "latest_symbol_data h ''AAPL'' = Some []" "latest_symbol_data h ''MSFT'' = Some []"
    by simp_all
  have sd: "symbol_data h ''AAPL'' = Some [flat_bar 1 10, flat_bar 2 10]"
    "symbol_data h ''MSFT'' = Some [flat_bar 1 10, flat_bar 2 10]"
    using h by (auto simp: HistoricCSVDataHandler_def flat_rows_def flat_bar_def)
  have live: "\<forall>s \<in> set (symbol_list h). symbol_data h s \<noteq> Some []"
    using sl sd by auto
  from update_bars_step[OF inv] obtain h' where
    h': "update_bars h = Inr h'" "events h' = events h @ [MarketEvent]"
      "(\<forall>s \<in> set (symbol_list h). symbol_data h s \<noteq> Some []) \<longrightarrow>
              continue_backtest h' = continue_backtest h \<and>
              (\<forall>s \<in> set (symbol_list h). \<exists>bl b rest.
                 latest_symbol_data h s = Some bl \<and> symbol_data h s = Some (b # rest) \<and>
                 latest_symbol_data h' s = Some (bl @ [b]) \<and> symbol_data h' s = Some rest)"
    by blast
  from h'(3) live have c': "continue_backtest h' = continue_backtest h"
    and g: "\<forall>s \<in> set (symbol_list h). \<exists>bl b rest.
                 latest_symbol_data h s = Some bl \<and> symbol_data h s = Some (b # rest) \<and>
                 latest_symbol_data h' s = Some (bl @ [b]) \<and> symbol_data h' s = Some rest"
    by blast+
  have a: "latest_symbol_data h' ''AAPL'' = Some [flat_bar 1 10] \<and>
           symbol_data h' ''AAPL'' = Some [flat_bar 2 10]"
    using g[rule_format, of "''AAPL''"] sl lat(1) sd(1) by auto
  have m: "latest_symbol_data h' ''MSFT'' = Some [flat_bar 1 10]"
    using g[rule_format, of "''MSFT''"] sl lat(2) sd(2) by auto
  show ?thesis
    using h inv h'(1,2) ev c' cb a m by simp
qed

text \<open>
  Claim C1 as stated fails: with the only series exhausted, \<open>update_bars\<close> clears the flag
  and still puts a MarketEvent on the queue.
\<close>

theorem update_bars_exhausted_counterexample:
  "update_bars (handler_with [''AAPL''] [(''AAPL'', [flat_bar 1 10], [])]) =
     Inr ((handler_with [''AAPL''] [(''AAPL'', [flat_bar 1 10], [])])
            \<lparr>continue_backtest := False, events := [MarketEvent]\<rparr>)"
  by (simp add: update_bars_def handler_with_def)

text \<open>
  Claim C3. For a tracked symbol with observed history \<open>bl\<close>, a column name and
  \<open>N \<ge> 1\<close>, \<open>get_latest_bars_values\<close> returns, without raising, exactly
  \<open>min N (length bl)\<close> values: the column's values of the last bars of the history, in
  the order of the history and without a gap. With an empty history that is the empty
  sequence.
\<close>

theorem get_latest_bars_values_window:
  assumes "latest_symbol_data h s = Some bl" and "val_type \<in> set bar_fields" and "1 \<le> N"
  shows "\<exists>vs. get_latest_bars_values h s val_type N = Inr vs \<and>
           length vs = min (nat N) (length bl) \<and>
           (\<forall>i < length vs.
              getattr_row (snd (bl ! (length bl - length vs + i))) val_type = Inr (vs ! i))"
proof -
  let ?w = "drop (length bl - nat N) bl"
  have bars: "get_latest_bars h s N = Inr ?w"
    using assms(1,3) by (simp add: get_latest_bars_def slice_from_last)
  obtain vs where vs: "map_err (\<lambda>b. getattr_row (snd b) val_type) ?w = Inr vs"
    using map_err_defined[of ?w "\<lambda>b. getattr_row (snd b) val_type"] getattr_row_field[OF assms(2)]
    by blast
  from map_err_Inr_nth[OF vs]
  have len: "length vs = length ?w"
    and nth: "\<forall>i < length ?w. getattr_row (snd (?w ! i)) val_type = Inr (vs ! i)"
    by simp_all
  have len': "length vs = min (nat N) (length bl)"
    using len by auto
  have "\<forall>i < length vs. getattr_row (snd (bl ! (length bl - length vs + i))) val_type = Inr (vs ! i)"
  proof (intro allI impI)
    fix i assume i: "i < length vs"
    have off: "length bl - nat N = length bl - length vs"
      using len' by auto
    have iw: "i < length ?w"
      using i len by simp
    have "?w ! i = bl ! (length bl - length vs + i)"
      using iw off by simp
    moreover have "getattr_row (snd (?w ! i)) val_type = Inr (vs ! i)"
      using nth iw by blast
    ultimately show "getattr_row (snd (bl ! (length bl - length vs + i))) val_type = Inr (vs ! i)"
      by simp
  qed
  moreover have "get_latest_bars_values h s val_type N = Inr vs"
    by (simp add: get_latest_bars_values_def bars vs)
  ultimately show ?thesis
    using len' by blast
qed

text \<open>Three observed bars: the last two closes, and all three when five are asked for.\<close>

theorem get_latest_bars_values_window_witness:
  "latest_symbol_data
      (handler_with [''AAPL''] [(''AAPL'', [flat_bar 1 10, flat_bar 2 11, flat_bar 3 12], [])])
      ''AAPL'' = Some [flat_bar 1 10, flat_bar 2 11, flat_bar 3 12] \<and>
   ''close'' \<in> set bar_fields \<and> (1::int) \<le> 2 \<and>
   get_latest_bars_values
      (handler_with [''AAPL''] [(''AAPL'', [flat_bar 1 10, flat_bar 2 11, flat_bar 3 12], [])])
      ''AAPL'' ''close'' 2 = Inr [11, 12] \<and>
   get_latest_bars_values
      (handler_with [''AAPL''] [(''AAPL'', [flat_bar 1 10, flat_bar 2 11, flat_bar 3 12], [])])
      ''AAPL'' ''close'' 5 = Inr [10, 11, 12]"
proof -
  let ?h = "handler_with [''AAPL''] [(''AAPL'', [flat_bar 1 10, flat_bar 2 11, flat_bar 3 12], [])]"
  have l: "latest_symbol_data ?h ''AAPL'' = Some [flat_bar 1 10, flat_bar 2 11, flat_bar 3 12]"
    by (simp add: handler_with_def)
  have f: "''close'' \<in> set bar_fields"
    by (simp add: bar_fields_def)
  from get_latest_bars_values_window[OF l f, of 2] obtain vs where
    vs: "get_latest_bars_values ?h ''AAPL'' ''close'' 2 = Inr vs" "length vs = 2"
      "\<forall>i < length vs. getattr_row (snd ([flat_bar 1 10, flat_bar 2 11, flat_bar 3 12] !
          (length [flat_bar 1 10, flat_bar 2 11, flat_bar 3 12] - length vs + i))) ''close'' = Inr (vs ! i)"
    by auto
  from vs(2) obtain a b where ab: "vs = [a, b]"
    by (cases vs; cases "tl vs") auto
  have "a = 11"
    using vs(3)[rule_format, of 0] unfolding ab by (simp add: flat_bar_def getattr_row_def)
  moreover have "b = 12"
    using vs(3)[rule_format, of 1] unfolding ab by (simp add: flat_bar_def getattr_row_def)
  ultimately
  have two: "get_latest_bars_values ?h ''AAPL'' ''close'' 2 = Inr [11, 12]"
    using vs(1) ab by simp
  have five: "get_latest_bars_values ?h ''AAPL'' ''close'' 5 = Inr [10, 11, 12]"
    by (simp add: get_latest_bars_values_def get_latest_bars_def handler_with_def slice_from_def
        flat_bar_def getattr_row_def)
  show ?thesis
    using l f two five by simp
qed

text \<open>
  Claim C10. For a tracked symbol whose observed history is empty,
  \<open>get_latest_bar_value\<close> returns None, while \<open>get_latest_bar\<close> raises IndexError.
\<close>

theorem empty_history_value_none:
  assumes "latest_symbol_data h symbol = Some []"
  shows "get_latest_bar_value h symbol val_type = Inr None \<and>
         get_latest_bar h symbol = Inl IndexError"
  using assms by (simp add: get_latest_bar_value_def get_latest_bar_def)

text \<open>A new handler, before the first \<open>update_bars\<close>.\<close>

theorem empty_history_value_none_witness:
  "(case HistoricCSVDataHandler [] [1] (flat_rows 10) [''AAPL''] of
      Inl e \<Rightarrow> False
    | Inr h \<Rightarrow>
        latest_symbol_data h ''AAPL'' = Some [] \<and>
        get_latest_bar_value h ''AAPL'' ''close'' = Inr None \<and>
        get_latest_bar h ''AAPL'' = Inl IndexError)"
proof -
  obtain h where h: "HistoricCSVDataHandler [] [1] (flat_rows 10) [''AAPL''] = Inr h"
    by (simp add: HistoricCSVDataHandler_def)
  have e: "latest_symbol_data h ''AAPL'' = Some []"
    using handler_init[OF h] by simp
  show ?thesis
    using h e empty_history_value_none[OF e, of "''close''"] by simp
qed


section \<open>Properties of the moving-average crossover strategy\<close>

lemma mac_symbol_effect:
  "\<exists>new. events (fst (state_after (mac_symbol dt a st))) = events (fst st) @ new \<and>
         (\<forall>e \<in> set new. signal_symbol e = Some a) \<and>
         latest_symbol_data (fst (state_after (mac_symbol dt a st))) = latest_symbol_data (fst st) \<and>
         symbol_list (fst (state_after (mac_symbol dt a st))) = symbol_list (fst st) \<and>
         short_window (snd (state_after (mac_symbol dt a st))) = short_window (snd st) \<and>
         long_window (snd (state_after (mac_symbol dt a st))) = long_window (snd st)"
  by (cases st) (simp add: mac_symbol_def Let_def split: sum.splits option.splits)

lemma slice_from_all: "int (length xs) \<le> n \<Longrightarrow> slice_from (- n) xs = xs"
  by (simp add: slice_from_def)

lemma map_err_length: "map_err f xs = Inr ys \<Longrightarrow> length ys = length xs"
  using map_err_Inr_nth by blast

lemma mac_symbol_quiet:
  assumes "latest_symbol_data (fst st) s = Some bl"
    and "int (length bl) \<le> short_window (snd st)" and "1 \<le> long_window (snd st)"
  shows "state_after (mac_symbol dt s st) = st"
proof (cases "get_latest_bars_values (fst st) s ''adj_close'' (long_window (snd st))")
  case (Inl e)
  then show ?thesis by (simp add: mac_symbol_def)
next
  case (Inr bars)
  have "get_latest_bars (fst st) s (long_window (snd st)) =
          Inr (drop (length bl - nat (long_window (snd st))) bl)"
    using assms(1,3) by (simp add: get_latest_bars_def slice_from_last)
  then have "length bars = length (drop (length bl - nat (long_window (snd st))) bl)"
    using Inr by (simp add: get_latest_bars_values_def map_err_length)
  then have len: "int (length bars) \<le> short_window (snd st)" "int (length bars) \<le> long_window (snd st)"
    using assms(2,3) by auto
  have same: "slice_from (- short_window (snd st)) bars = bars"
    "slice_from (- long_window (snd st)) bars = bars"
    using len by (simp_all add: slice_from_all)
  have irr: "\<not> nan_less (mean bars) (mean bars)"
    by (cases "mean bars") simp_all
  show ?thesis
    using Inr same irr
    by (cases "get_latest_bar_datetime (fst st) s") (simp_all add: mac_symbol_def Let_def)
qed

lemma mac_loop_quiet:
  assumes "latest_symbol_data (fst st) s = Some bl"
    and "int (length bl) \<le> short_window (snd st)" and "1 \<le> long_window (snd st)"
  shows "\<exists>new. events (fst (state_after (mac_loop dt ss st))) = events (fst st) @ new \<and>
           (\<forall>e \<in> set new. signal_symbol e \<noteq> Some s)"
  using assms
proof (induction ss arbitrary: st)
  case Nil
  then show ?case by simp
next
  case (Cons a ss)
  let ?r = "mac_symbol dt a st"
  let ?st1 = "state_after ?r"
  from mac_symbol_effect[of dt a st] obtain new1 where
    n1: "events (fst ?st1) = events (fst st) @ new1"
      "\<forall>e \<in> set new1. signal_symbol e = Some a"
      "latest_symbol_data (fst ?st1) = latest_symbol_data (fst st)"
      "short_window (snd ?st1) = short_window (snd st)"
      "long_window (snd ?st1) = long_window (snd st)"
    by blast
  have q: "a = s \<Longrightarrow> new1 = []"
    using mac_symbol_quiet[OF Cons.prems, of dt] n1(1) by simp
  have new1: "\<forall>e \<in> set new1. signal_symbol e \<noteq> Some s"
    using n1(2) q by (cases "a = s") auto
  show ?case
  proof (cases ?r)
    case (Inl p)
    then have "state_after (mac_loop dt (a # ss) st) = ?st1"
      by (cases p) simp
    then show ?thesis
      using n1(1) new1 by auto
  next
    case (Inr st')
    then have st': "?st1 = st'" by simp
    have pre: "latest_symbol_data (fst st') s = Some bl"
      "int (length bl) \<le> short_window (snd st')" "1 \<le> long_window (snd st')"
      using Cons.prems n1(3,4,5) st' by simp_all
    from Cons.IH[OF pre] obtain new2 where
      n2: "events (fst (state_after (mac_loop dt ss st'))) = events (fst st') @ new2"
        "\<forall>e \<in> set new2. signal_symbol e \<noteq> Some s"
      by blast
    have "events (fst (state_after (mac_loop dt (a # ss) st))) = events (fst st) @ (new1 @ new2)"
      using Inr n2(1) n1(1) st' by simp
    moreover have "\<forall>e \<in> set (new1 @ new2). signal_symbol e \<noteq> Some s"
      using new1 n2(2) by auto
    ultimately show ?thesis by blast
  qed
qed

text \<open>
  Claim C4, as the code has it. The guard of \<open>calculate_signals\<close> is \<open>bars.size > 0\<close>, not
  a full long window. With \<open>long_window \<ge> 1\<close>, the strategy puts no SignalEvent for a
  symbol on the queue while at most \<open>short_window\<close> bars of that symbol are observed:
  both means are then means of the same values. (With no bar at all the call raises
  IndexError at \<open>get_latest_bar_datetime\<close>, again without a signal for the symbol.)
\<close>

theorem mac_no_signal_up_to_short_window:
  assumes "latest_symbol_data (fst st) s = Some bl"
    and "int (length bl) \<le> short_window (snd st)" and "1 \<le> long_window (snd st)"
  shows "\<exists>new. events (fst (state_after (mac_calculate_signals dt event st))) =
                 events (fst st) @ new \<and>
               (\<forall>e \<in> set new. signal_symbol e \<noteq> Some s)"
proof (cases "etype event = ''MARKET''")
  case True
  then show ?thesis
    using mac_loop_quiet[OF assms] by (simp add: mac_calculate_signals_def)
next
  case False
  then show ?thesis
    by (simp add: mac_calculate_signals_def)
qed

text \<open>Two observed bars and the default windows 100 and 400.\<close>

theorem mac_no_signal_up_to_short_window_witness:
  "latest_symbol_data (handler_with [''AAPL''] [(''AAPL'', [flat_bar 1 10, flat_bar 2 11], [])]) ''AAPL''
      = Some [flat_bar 1 10, flat_bar 2 11] \<and>
   int (length [flat_bar 1 10, flat_bar 2 11]) \<le> 100 \<and> (1::int) \<le> 400 \<and>
   events (fst (state_after (mac_calculate_signals 7 MarketEvent
      (handler_with [''AAPL''] [(''AAPL'', [flat_bar 1 10, flat_bar 2 11], [])],
       \<lparr>short_window = 100, long_window = 400, bought = [''AAPL'' \<mapsto> PBool False]\<rparr>)))) = []"
proof -
  let ?h = "handler_with [''AAPL''] [(''AAPL'', [flat_bar 1 10, flat_bar 2 11], [])]"
  let ?m = "\<lparr>short_window = 100, long_window = 400, bought = [''AAPL'' \<mapsto> PBool False]\<rparr>"
  have l: "latest_symbol_data (fst (?h, ?m)) ''AAPL'' = Some [flat_bar 1 10, flat_bar 2 11]"
    by (simp add: handler_with_def)
  have s: "int (length [flat_bar 1 10, flat_bar 2 11]) \<le> short_window (snd (?h, ?m))"
    by simp
  have w: "1 \<le> long_window (snd (?h, ?m))"
    by simp
  from mac_no_signal_up_to_short_window[OF l s w, of 7 MarketEvent] obtain new where
    new: "events (fst (state_after (mac_calculate_signals 7 MarketEvent (?h, ?m)))) = events ?h @ new"
      "\<forall>e \<in> set new. signal_symbol e \<noteq> Some ''AAPL''"
    by auto
  have st: "state_after (mac_calculate_signals 7 MarketEvent (?h, ?m)) = (?h, ?m)"
    using mac_symbol_quiet[OF l s w, of 7]
    by (cases "mac_symbol 7 ''AAPL'' (?h, ?m)")
       (auto simp: mac_calculate_signals_def handler_with_def)
  have "events (fst (state_after (mac_calculate_signals 7 MarketEvent (?h, ?m)))) = []"
    unfolding st by (simp add: handler_with_def)
  then show ?thesis
    using l new by simp
qed

text \<open>
  Claim C4 as stated fails: with windows 1 and 3 and only two bars observed (10, then 11)
  a flat strategy puts a LONG signal on the queue.
\<close>

theorem mac_signal_below_long_window_counterexample:
  "mac_calculate_signals 7 MarketEvent
      (handler_with [''AAPL''] [(''AAPL'', [flat_bar 1 10, flat_bar 2 11], [])],
       \<lparr>short_window = 1, long_window = 3, bought = [''AAPL'' \<mapsto> PBool False]\<rparr>) =
   Inr ((handler_with [''AAPL''] [(''AAPL'', [flat_bar 1 10, flat_bar 2 11], [])])
          \<lparr>events := [SignalEvent 1 ''AAPL'' 7 ''LONG'' 1]\<rparr>,
        \<lparr>short_window = 1, long_window = 3, bought = [''AAPL'' \<mapsto> PBool True]\<rparr>)"
  by (simp add: mac_calculate_signals_def mac_symbol_def handler_with_def
      get_latest_bars_values_def get_latest_bars_def get_latest_bar_datetime_def
      slice_from_def flat_bar_def getattr_row_def mean_def Let_def)

text \<open>
  Claim C5 against the code. A new strategy holds \<open>'OUT'\<close> for every symbol, and
  \<open>not self.bought[symbol]\<close> is false for that string. With windows 1 and 2 and the bars
  10, 11 the short mean 11 is above the long mean 10.5, and the new strategy puts nothing
  on the queue and keeps \<open>'OUT'\<close>.
\<close>

theorem mac_fresh_strategy_no_long:
  "nan_less (mean (slice_from (- 2) [10, 11])) (mean (slice_from (- 1) [10, 11])) \<and>
   mac_calculate_signals 7 MarketEvent
      (handler_with [''AAPL''] [(''AAPL'', [flat_bar 1 10, flat_bar 2 11], [])],
       MovingAverageCrossStrategy
         (handler_with [''AAPL''] [(''AAPL'', [flat_bar 1 10, flat_bar 2 11], [])]) 1 2) =
   Inr (handler_with [''AAPL''] [(''AAPL'', [flat_bar 1 10, flat_bar 2 11], [])],
        \<lparr>short_window = 1, long_window = 2, bought = [''AAPL'' \<mapsto> PStr ''OUT'']\<rparr>)"
  by (simp add: mac_calculate_signals_def mac_symbol_def handler_with_def
      MovingAverageCrossStrategy_def
      get_latest_bars_values_def get_latest_bars_def get_latest_bar_datetime_def
      slice_from_def flat_bar_def getattr_row_def mean_def Let_def)



section \<open>Properties of the pairs mean-reversion strategy\<close>

text \<open>
  With both windows full and of one length, the fit done and the z-score computed,
  \<open>calculate_signals_for_pairs\<close> is \<open>calculate_xy_signals\<close> on that z-score, and the pair
  of signals it returns goes on the queue.
\<close>

lemma pairs_after_fit:
  assumes "get_latest_bars_values h (fst (pair m)) ''close'' (ols_window m) = Inr y"
    and "get_latest_bars_values h (snd (pair m)) ''close'' (ols_window m) = Inr x"
    and "ols_window m \<le> int (length y)" and "ols_window m \<le> int (length x)"
    and "length y = length x"
    and "ols y x = Inr b"
    and "zscore_of_last (map2 (\<lambda>yi xi. yi - b * xi) y x) = Inr z"
  shows "calculate_signals_for_pairs ols (h, m) =
           (case calculate_xy_signals z (m\<lparr>hedge_ratio := Some b\<rparr>) of
              Inl e \<Rightarrow> Inl (e, (h, m\<lparr>hedge_ratio := Some b\<rparr>))
            | Inr ((Some y_signal, Some x_signal), m2) \<Rightarrow>
                Inr (h\<lparr>events := events h @ [y_signal, x_signal]\<rparr>, m2)
            | Inr (_, m2) \<Rightarrow> Inr (h, m2))"
  using assms by (simp add: calculate_signals_for_pairs_def Let_def)

text \<open>
  Claim C6, as the code has it. On a Market event where both legs have \<open>ols_window\<close>
  values and the fit gives the hedge ratio \<open>b\<close>, with \<open>0 \<le> zscore_low < zscore_high\<close>:
  when \<open>z \<le> -zscore_high\<close> and the strategy is not long it goes long y and short x and
  sets the long flag; when \<open>|z| \<le> zscore_low\<close> and it is long it puts the EXIT pair and
  clears the long flag; when \<open>z \<ge> zscore_high\<close> and it is not short it goes short y and
  long x and sets the short flag; when \<open>|z| \<le> zscore_low\<close> and it is short and not long it
  puts the EXIT pair and clears the short flag; in every other case it puts nothing on
  the queue and keeps both flags.
\<close>

theorem pairs_transition_rules:
  assumes "get_latest_bars_values h (fst (pair m)) ''close'' (ols_window m) = Inr y"
    and "get_latest_bars_values h (snd (pair m)) ''close'' (ols_window m) = Inr x"
    and "ols_window m \<le> int (length y)" and "ols_window m \<le> int (length x)"
    and "length y = length x"
    and "ols y x = Inr b"
    and "zscore_of_last (map2 (\<lambda>yi xi. yi - b * xi) y x) = Inr z"
    and "0 \<le> zscore_low m" and "zscore_low m < zscore_high m"
  shows "(nan_le z (- zscore_high m) \<and> \<not> long_market m \<longrightarrow>
            calculate_signals_for_pairs ols (h, m) =
              Inr (h\<lparr>events := events h @
                     [SignalEvent 1 (fst (pair m)) (datetime m) ''LONG'' 1,
                      SignalEvent 1 (snd (pair m)) (datetime m) ''SHORT'' \<bar>b\<bar>]\<rparr>,
                   m\<lparr>hedge_ratio := Some b, long_market := True\<rparr>)) \<and>
         (nan_le (nan_abs z) (zscore_low m) \<and> long_market m \<longrightarrow>
            calculate_signals_for_pairs ols (h, m) =
              Inr (h\<lparr>events := events h @
                     [SignalEvent 1 (fst (pair m)) (datetime m) ''EXIT'' 1,
                      SignalEvent 1 (snd (pair m)) (datetime m) ''EXIT'' 1]\<rparr>,
                   m\<lparr>hedge_ratio := Some b, long_market := False\<rparr>)) \<and>
         (nan_ge z (zscore_high m) \<and> \<not> short_market m \<longrightarrow>
            calculate_signals_for_pairs ols (h, m) =
              Inr (h\<lparr>events := events h @
                     [SignalEvent 1 (fst (pair m)) (datetime m) ''SHORT'' 1,
                      SignalEvent 1 (snd (pair m)) (datetime m) ''LONG'' \<bar>b\<bar>]\<rparr>,
                   m\<lparr>hedge_ratio := Some b, short_market := True\<rparr>)) \<and>
         (nan_le (nan_abs z) (zscore_low m) \<and> short_market m \<and> \<not> long_market m \<longrightarrow>
            calculate_signals_for_pairs ols (h, m) =
              Inr (h\<lparr>events := events h @
                     [SignalEvent 1 (fst (pair m)) (datetime m) ''EXIT'' 1,
                      SignalEvent 1 (snd (pair m)) (datetime m) ''EXIT'' 1]\<rparr>,
                   m\<lparr>hedge_ratio := Some b, short_market := False\<rparr>)) \<and>
         (\<not> (nan_le z (- zscore_high m) \<and> \<not> long_market m) \<and>
          \<not> (nan_le (nan_abs z) (zscore_low m) \<and> long_market m) \<and>
          \<not> (nan_ge z (zscore_high m) \<and> \<not> short_market m) \<and>
          \<not> (nan_le (nan_abs z) (zscore_low m) \<and> short_market m) \<longrightarrow>
            calculate_signals_for_pairs ols (h, m) = Inr (h, m\<lparr>hedge_ratio := Some b\<rparr>))"
proof -
  note fit = pairs_after_fit[where ols = ols and b = b and z = z, OF assms(1-7)]
  show ?thesis
  proof (cases z)
    case None
    then show ?thesis
      unfolding fit by (simp add: calculate_xy_signals_def Let_def)
  next
    case (Some zv)
    have excl: "zv \<le> - zscore_high m \<Longrightarrow> \<not> \<bar>zv\<bar> \<le> zscore_low m"
      "zv \<ge> zscore_high m \<Longrightarrow> \<not> \<bar>zv\<bar> \<le> zscore_low m"
      "zv \<ge> zscore_high m \<Longrightarrow> \<not> zv \<le> - zscore_high m"
      using assms(8,9) by linarith+
    show ?thesis
      unfolding fit Some using excl
      by (auto simp: calculate_xy_signals_def Let_def)
  qed
qed

text \<open>
  Claim C7, as the code has it. On a Market event where both legs have \<open>ols_window\<close>
  values and the fit gives the hedge ratio \<open>b\<close>, the call changes nothing of the
  strategy but the hedge ratio and the two flags, and it puts signals on the queue exactly
  when it flips a flag, which is a triggered transition. An entry (a flag set) puts
  exactly two signals, the y leg first with strength 1.0 and the x leg second with the
  absolute hedge ratio as its strength: LONG y and SHORT x when the long flag is set,
  SHORT y and LONG x when the short flag is set. An exit (a flag cleared) puts exactly the
  two EXIT signals, both with strength 1.0. The long flag is set exactly when
  \<open>z \<le> -zscore_high\<close> and the strategy is not long, and cleared exactly when
  \<open>|z| \<le> zscore_low\<close> and it is long; the short flag is set or cleared exactly when
  neither of these holds and \<open>z \<ge> zscore_high\<close> and it is not short, or
  \<open>|z| \<le> zscore_low\<close> and it is short.
\<close>

theorem pairs_signal_strengths:
  assumes "get_latest_bars_values h (fst (pair m)) ''close'' (ols_window m) = Inr y"
    and "get_latest_bars_values h (snd (pair m)) ''close'' (ols_window m) = Inr x"
    and "ols_window m \<le> int (length y)" and "ols_window m \<le> int (length x)"
    and "length y = length x"
    and "ols y x = Inr b"
    and "zscore_of_last (map2 (\<lambda>yi xi. yi - b * xi) y x) = Inr z"
  shows "\<exists>sigs m'.
           calculate_signals_for_pairs ols (h, m) = Inr (h\<lparr>events := events h @ sigs\<rparr>, m') \<and>
           m' = m\<lparr>hedge_ratio := Some b, long_market := long_market m',
                   short_market := short_market m'\<rparr> \<and>
           ((long_market m' \<noteq> long_market m \<or> short_market m' \<noteq> short_market m)
              \<longleftrightarrow> sigs \<noteq> []) \<and>
           (\<not> long_market m \<and> long_market m' \<longrightarrow>
              sigs = [SignalEvent 1 (fst (pair m)) (datetime m) ''LONG'' 1,
                      SignalEvent 1 (snd (pair m)) (datetime m) ''SHORT'' \<bar>b\<bar>] \<and>
              short_market m' = short_market m) \<and>
           (\<not> short_market m \<and> short_market m' \<longrightarrow>
              sigs = [SignalEvent 1 (fst (pair m)) (datetime m) ''SHORT'' 1,
                      SignalEvent 1 (snd (pair m)) (datetime m) ''LONG'' \<bar>b\<bar>] \<and>
              long_market m' = long_market m) \<and>
           (long_market m \<and> \<not> long_market m' \<longrightarrow>
              sigs = [SignalEvent 1 (fst (pair m)) (datetime m) ''EXIT'' 1,
                      SignalEvent 1 (snd (pair m)) (datetime m) ''EXIT'' 1] \<and>
              short_market m' = short_market m) \<and>
           (short_market m \<and> \<not> short_market m' \<longrightarrow>
              sigs = [SignalEvent 1 (fst (pair m)) (datetime m) ''EXIT'' 1,
                      SignalEvent 1 (snd (pair m)) (datetime m) ''EXIT'' 1] \<and>
              long_market m' = long_market m) \<and>
           ((\<not> long_market m \<and> long_market m') \<longleftrightarrow>
              (nan_le z (- zscore_high m) \<and> \<not> long_market m)) \<and>
           ((long_market m \<and> \<not> long_market m') \<longleftrightarrow>
              (nan_le (nan_abs z) (zscore_low m) \<and> long_market m)) \<and>
           ((\<not> short_market m \<and> short_market m') \<longleftrightarrow>
              (\<not> (nan_le z (- zscore_high m) \<and> \<not> long_market m) \<and>
               \<not> (nan_le (nan_abs z) (zscore_low m) \<and> long_market m) \<and>
               nan_ge z (zscore_high m) \<and> \<not> short_market m)) \<and>
           ((short_market m \<and> \<not> short_market m') \<longleftrightarrow>
              (\<not> (nan_le z (- zscore_high m) \<and> \<not> long_market m) \<and>
               \<not> (nan_le (nan_abs z) (zscore_low m) \<and> long_market m) \<and>
               nan_le (nan_abs z) (zscore_low m) \<and> short_market m))"
proof -
  note fit = pairs_after_fit[where ols = ols and b = b and z = z, OF assms(1-7)]
  let ?m1 = "m\<lparr>hedge_ratio := Some b\<rparr>"
  let ?y = "fst (pair m)" and ?x = "snd (pair m)" and ?dt = "datetime m"
  consider
      (enter_long) "nan_le z (- zscore_high m) \<and> \<not> long_market m"
    | (exit_long) "\<not> (nan_le z (- zscore_high m) \<and> \<not> long_market m)"
        "nan_le (nan_abs z) (zscore_low m) \<and> long_market m"
    | (enter_short) "\<not> (nan_le z (- zscore_high m) \<and> \<not> long_market m)"
        "\<not> (nan_le (nan_abs z) (zscore_low m) \<and> long_market m)"
        "nan_ge z (zscore_high m) \<and> \<not> short_market m"
    | (exit_short) "\<not> (nan_le z (- zscore_high m) \<and> \<not> long_market m)"
        "\<not> (nan_le (nan_abs z) (zscore_low m) \<and> long_market m)"
        "\<not> (nan_ge z (zscore_high m) \<and> \<not> short_market m)"
        "nan_le (nan_abs z) (zscore_low m) \<and> short_market m"
    | (none) "\<not> (nan_le z (- zscore_high m) \<and> \<not> long_market m)"
        "\<not> (nan_le (nan_abs z) (zscore_low m) \<and> long_market m)"
        "\<not> (nan_ge z (zscore_high m) \<and> \<not> short_market m)"
        "\<not> (nan_le (nan_abs z) (zscore_low m) \<and> short_market m)"
    by blast
  then show ?thesis
  proof cases
    case enter_long
    let ?S = "[SignalEvent 1 ?y ?dt ''LONG'' 1, SignalEvent 1 ?x ?dt ''SHORT'' \<bar>b\<bar>]"
    let ?M = "?m1\<lparr>long_market := True\<rparr>"
    have res: "calculate_signals_for_pairs ols (h, m) = Inr (h\<lparr>events := events h @ ?S\<rparr>, ?M)"
      using enter_long unfolding fit by (auto simp: calculate_xy_signals_def Let_def)
    show ?thesis
      by (rule exI[of _ ?S], rule exI[of _ ?M]) (use res enter_long in auto)
  next
    case exit_long
    let ?S = "[SignalEvent 1 ?y ?dt ''EXIT'' 1, SignalEvent 1 ?x ?dt ''EXIT'' 1]"
    let ?M = "?m1\<lparr>long_market := False\<rparr>"
    have res: "calculate_signals_for_pairs ols (h, m) = Inr (h\<lparr>events := events h @ ?S\<rparr>, ?M)"
      using exit_long unfolding fit by (auto simp: calculate_xy_signals_def Let_def)
    show ?thesis
      by (rule exI[of _ ?S], rule exI[of _ ?M]) (use res exit_long in auto)
  next
    case enter_short
    let ?S = "[SignalEvent 1 ?y ?dt ''SHORT'' 1, SignalEvent 1 ?x ?dt ''LONG'' \<bar>b\<bar>]"
    let ?M = "?m1\<lparr>short_market := True\<rparr>"
    have res: "calculate_signals_for_pairs ols (h, m) = Inr (h\<lparr>events := events h @ ?S\<rparr>, ?M)"
      using enter_short unfolding fit by (auto simp: calculate_xy_signals_def Let_def)
    show ?thesis
      by (rule exI[of _ ?S], rule exI[of _ ?M]) (use res enter_short in auto)
  next
    case exit_short
    let ?S = "[SignalEvent 1 ?y ?dt ''EXIT'' 1, SignalEvent 1 ?x ?dt ''EXIT'' 1]"
    let ?M = "?m1\<lparr>short_market := False\<rparr>"
    have res: "calculate_signals_for_pairs ols (h, m) = Inr (h\<lparr>events := events h @ ?S\<rparr>, ?M)"
      using exit_short unfolding fit by (auto simp: calculate_xy_signals_def Let_def)
    show ?thesis
      by (rule exI[of _ ?S], rule exI[of _ ?M]) (use res exit_short in auto)
  next
    case none
    have res: "calculate_signals_for_pairs ols (h, m) = Inr (h\<lparr>events := events h @ []\<rparr>, ?m1)"
      using none unfolding fit by (auto simp: calculate_xy_signals_def Let_def)
    show ?thesis
      by (rule exI[of _ "[]"], rule exI[of _ ?m1]) (use res none in auto)
  qed
qed

lemma pair_handler_values:
  "get_latest_bars_values (pair_handler y1 y2 x1 x2) ''AREX'' ''close'' 2 = Inr [y1, y2]"
  "get_latest_bars_values (pair_handler y1 y2 x1 x2) ''WLL'' ''close'' 2 = Inr [x1, x2]"
  by (simp_all add: pair_handler_def handler_with_def get_latest_bars_values_def
      get_latest_bars_def slice_from_def flat_bar_def getattr_row_def)

lemma zscore_of_last_examples:
  "zscore_of_last [- 1, 1] = Inr (Some 1)"
  "zscore_of_last [1, - 1] = Inr (Some (- 1))"
  by (simp_all add: zscore_of_last_def Let_def)

lemma ols_origin_examples:
  "ols_origin [1, 3] [1, 1] = Inr 2"
  "ols_origin [3, 1] [1, 1] = Inr 2"
  by (simp_all add: ols_origin_def)

text \<open>
  AREX closes 1, 3 and WLL closes 1, 1: hedge ratio 2, spread -1, 1, z-score 1. With the
  thresholds 0.5 and 1 a flat strategy goes short y and long x.
\<close>

theorem pairs_transition_rules_witness:
  "get_latest_bars_values (pair_handler 1 3 1 1)
      (fst (pair (IntradayOLSMRStrategy 5 2 (1/2) 1))) ''close''
      (ols_window (IntradayOLSMRStrategy 5 2 (1/2) 1)) = Inr [1, 3] \<and>
   get_latest_bars_values (pair_handler 1 3 1 1)
      (snd (pair (IntradayOLSMRStrategy 5 2 (1/2) 1))) ''close''
      (ols_window (IntradayOLSMRStrategy 5 2 (1/2) 1)) = Inr [1, 1] \<and>
   ols_origin [1, 3] [1, 1] = Inr 2 \<and>
   zscore_of_last (map2 (\<lambda>yi xi. yi - 2 * xi) [1, 3] [1, 1]) = Inr (Some 1) \<and>
   calculate_signals_for_pairs ols_origin (pair_handler 1 3 1 1, IntradayOLSMRStrategy 5 2 (1/2) 1) =
     Inr ((pair_handler 1 3 1 1)
            \<lparr>events := [SignalEvent 1 ''AREX'' 5 ''SHORT'' 1, SignalEvent 1 ''WLL'' 5 ''LONG'' 2]\<rparr>,
          (IntradayOLSMRStrategy 5 2 (1/2) 1)\<lparr>hedge_ratio := Some 2, short_market := True\<rparr>)"
proof -
  let ?h = "pair_handler 1 3 1 1"
  let ?m = "IntradayOLSMRStrategy 5 2 (1/2) 1"
  have y: "get_latest_bars_values ?h (fst (pair ?m)) ''close'' (ols_window ?m) = Inr [1, 3]"
    by (simp add: IntradayOLSMRStrategy_def pair_handler_values)
  have x: "get_latest_bars_values ?h (snd (pair ?m)) ''close'' (ols_window ?m) = Inr [1, 1]"
    by (simp add: IntradayOLSMRStrategy_def pair_handler_values)
  have ly: "ols_window ?m \<le> int (length [1::real, 3])" and lx: "ols_window ?m \<le> int (length [1::real, 1])"
    by (simp_all add: IntradayOLSMRStrategy_def)
  have ll: "length [1::real, 3] = length [1::real, 1]"
    by simp
  have b: "ols_origin [1, 3] [1, 1] = Inr 2"
    by (rule ols_origin_examples)
  have z: "zscore_of_last (map2 (\<lambda>yi xi. yi - 2 * xi) [1, 3] [1, 1]) = Inr (Some 1)"
    by (simp add: zscore_of_last_examples)
  have lo: "0 \<le> zscore_low ?m" and hi: "zscore_low ?m < zscore_high ?m"
    by (simp_all add: IntradayOLSMRStrategy_def)
  have ev: "events ?h = []"
    by (simp add: pair_handler_def handler_with_def)
  have "nan_ge (Some 1) (zscore_high ?m) \<and> \<not> short_market ?m"
    by (simp add: IntradayOLSMRStrategy_def)
  with pairs_transition_rules[where ols = ols_origin, OF y x ly lx ll b z lo hi]
  have "calculate_signals_for_pairs ols_origin (?h, ?m) =
          Inr (?h\<lparr>events := events ?h @
                     [SignalEvent 1 (fst (pair ?m)) (datetime ?m) ''SHORT'' 1,
                      SignalEvent 1 (snd (pair ?m)) (datetime ?m) ''LONG'' \<bar>2\<bar>]\<rparr>,
               ?m\<lparr>hedge_ratio := Some 2, short_market := True\<rparr>)"
    by blast
  then have "calculate_signals_for_pairs ols_origin (?h, ?m) =
     Inr (?h\<lparr>events := [SignalEvent 1 ''AREX'' 5 ''SHORT'' 1, SignalEvent 1 ''WLL'' 5 ''LONG'' 2]\<rparr>,
          ?m\<lparr>hedge_ratio := Some 2, short_market := True\<rparr>)"
    by (simp add: ev) (simp add: IntradayOLSMRStrategy_def)
  then show ?thesis
    using y x b z by blast
qed

text \<open>
  Claim C6 as stated fails: with AREX closes 3, 1 and WLL closes 1, 1 the z-score is -1, at
  \<open>-zscore_high\<close>, and the flat strategy goes long y and short x, not short y and long x.
\<close>

theorem pairs_directions_counterexample:
  "calculate_signals_for_pairs ols_origin (pair_handler 3 1 1 1, IntradayOLSMRStrategy 5 2 (1/2) 1) =
     Inr ((pair_handler 3 1 1 1)
            \<lparr>events := [SignalEvent 1 ''AREX'' 5 ''LONG'' 1, SignalEvent 1 ''WLL'' 5 ''SHORT'' 2]\<rparr>,
          (IntradayOLSMRStrategy 5 2 (1/2) 1)\<lparr>hedge_ratio := Some 2, long_market := True\<rparr>) \<and>
   zscore_of_last (map2 (\<lambda>yi xi. yi - 2 * xi) [3, 1] [1, 1]) = Inr (Some (- 1))"
  by (simp add: calculate_signals_for_pairs_def IntradayOLSMRStrategy_def pair_handler_values
      ols_origin_examples zscore_of_last_examples calculate_xy_signals_def Let_def)
     (simp add: pair_handler_def handler_with_def)

text \<open>The entry at z-score -1: strengths 1 on y and 2, the absolute hedge ratio, on x.\<close>

theorem pairs_signal_strengths_witness:
  "get_latest_bars_values (pair_handler 3 1 1 1)
      (fst (pair (IntradayOLSMRStrategy 5 2 (1/2) 1))) ''close''
      (ols_window (IntradayOLSMRStrategy 5 2 (1/2) 1)) = Inr [3, 1] \<and>
   get_latest_bars_values (pair_handler 3 1 1 1)
      (snd (pair (IntradayOLSMRStrategy 5 2 (1/2) 1))) ''close''
      (ols_window (IntradayOLSMRStrategy 5 2 (1/2) 1)) = Inr [1, 1] \<and>
   ols_origin [3, 1] [1, 1] = Inr 2 \<and>
   zscore_of_last (map2 (\<lambda>yi xi. yi - 2 * xi) [3, 1] [1, 1]) = Inr (Some (- 1)) \<and>
   events (fst (state_after (calculate_signals_for_pairs ols_origin
      (pair_handler 3 1 1 1, IntradayOLSMRStrategy 5 2 (1/2) 1)))) =
     [SignalEvent 1 ''AREX'' 5 ''LONG'' 1, SignalEvent 1 ''WLL'' 5 ''SHORT'' 2] \<and>
   long_market (snd (state_after (calculate_signals_for_pairs ols_origin
      (pair_handler 3 1 1 1, IntradayOLSMRStrategy 5 2 (1/2) 1))))"
proof -
  let ?h = "pair_handler 3 1 1 1"
  let ?m = "IntradayOLSMRStrategy 5 2 (1/2) 1"
  have y: "get_latest_bars_values ?h (fst (pair ?m)) ''close'' (ols_window ?m) = Inr [3, 1]"
    by (simp add: IntradayOLSMRStrategy_def pair_handler_values)
  have x: "get_latest_bars_values ?h (snd (pair ?m)) ''close'' (ols_window ?m) = Inr [1, 1]"
    by (simp add: IntradayOLSMRStrategy_def pair_handler_values)
  have ly: "ols_window ?m \<le> int (length [3::real, 1])" and lx: "ols_window ?m \<le> int (length [1::real, 1])"
    by (simp_all add: IntradayOLSMRStrategy_def)
  have ll: "length [3::real, 1] = length [1::real, 1]"
    by simp
  have b: "ols_origin [3, 1] [1, 1] = Inr 2"
    by (rule ols_origin_examples)
  have z: "zscore_of_last (map2 (\<lambda>yi xi. yi - 2 * xi) [3, 1] [1, 1]) = Inr (Some (- 1))"
    by (simp add: zscore_of_last_examples)
  from pairs_signal_strengths[where ols = ols_origin, OF y x ly lx ll b z]
  obtain sigs m' where
    r: "calculate_signals_for_pairs ols_origin (?h, ?m) = Inr (?h\<lparr>events := events ?h @ sigs\<rparr>, m')"
    and entry: "\<not> long_market ?m \<and> long_market m' \<longrightarrow>
              sigs = [SignalEvent 1 (fst (pair ?m)) (datetime ?m) ''LONG'' 1,
                      SignalEvent 1 (snd (pair ?m)) (datetime ?m) ''SHORT'' \<bar>2\<bar>] \<and>
              short_market m' = short_market ?m"
    and trig: "(\<not> long_market ?m \<and> long_market m') \<longleftrightarrow>
              (nan_le (Some (- 1)) (- zscore_high ?m) \<and> \<not> long_market ?m)"
    by blast
  have "nan_le (Some (- 1)) (- zscore_high ?m) \<and> \<not> long_market ?m"
    by (simp add: IntradayOLSMRStrategy_def)
  with trig have l: "\<not> long_market ?m \<and> long_market m'"
    by blast
  with entry have "sigs = [SignalEvent 1 (fst (pair ?m)) (datetime ?m) ''LONG'' 1,
                      SignalEvent 1 (snd (pair ?m)) (datetime ?m) ''SHORT'' \<bar>2\<bar>]"
    by blast
  then have sg: "sigs = [SignalEvent 1 ''AREX'' 5 ''LONG'' 1, SignalEvent 1 ''WLL'' 5 ''SHORT'' 2]"
    by (simp add: IntradayOLSMRStrategy_def)
  have ev: "events ?h = []"
    by (simp add: pair_handler_def handler_with_def)
  have "events (fst (state_after (calculate_signals_for_pairs ols_origin (?h, ?m)))) =
     [SignalEvent 1 ''AREX'' 5 ''LONG'' 1, SignalEvent 1 ''WLL'' 5 ''SHORT'' 2]"
    unfolding r by (simp add: sg ev)
  moreover have "long_market (snd (state_after (calculate_signals_for_pairs ols_origin (?h, ?m))))"
    unfolding r using l by simp
  ultimately show ?thesis
    using y x b z by blast
qed

text \<open>
  Claim C7 as stated fails: a long strategy at z-score 1, within \<open>zscore_low = 1\<close>, puts
  the EXIT pair, and the x leg has strength 1.0 while the hedge ratio is 2.
\<close>

theorem pairs_exit_strength_counterexample:
  "calculate_signals_for_pairs ols_origin
      (pair_handler 1 3 1 1, (IntradayOLSMRStrategy 5 2 1 3)\<lparr>long_market := True\<rparr>) =
     Inr ((pair_handler 1 3 1 1)
            \<lparr>events := [SignalEvent 1 ''AREX'' 5 ''EXIT'' 1, SignalEvent 1 ''WLL'' 5 ''EXIT'' 1]\<rparr>,
          (IntradayOLSMRStrategy 5 2 1 3)\<lparr>hedge_ratio := Some 2, long_market := False\<rparr>) \<and>
   ols_origin [1, 3] [1, 1] = Inr 2"
  by (simp add: calculate_signals_for_pairs_def IntradayOLSMRStrategy_def pair_handler_values
      ols_origin_examples zscore_of_last_examples calculate_xy_signals_def Let_def)
     (simp add: pair_handler_def handler_with_def)



section \<open>Properties of the broker-backed execution handler\<close>

text \<open>
  As written, a call of \<open>_reply_handler\<close> raises AttributeError or leaves the handler as
  it was: it makes no entry, sets no flag and puts nothing on the queue.
\<close>

lemma reply_handler_no_effect:
  "reply_handler now msg h = Inl AttributeError \<or> reply_handler now msg h = Inr h"
  by (cases msg) (simp_all add: reply_handler_def call_message_method_def)

text \<open>
  Claim C8 against the code. A Filled notification for order id 1, whose entry has the
  flag still false, raises AttributeError at \<open>self._create_fill\<close>: no FillEvent is put on
  the queue and the flag is not set. The openOrder message for the current order id
  raises likewise at \<open>self._create_fill_dict_entry\<close>, so the handler itself never makes
  an entry, and a Filled notification for an id without an entry does nothing.
\<close>

theorem reply_handler_first_fill_raises:
  "reply_handler 20 (OrderStatus 1 ''Filled'' 100 150)
      \<lparr>ib_events = [], order_routing = ''SMART'', currency = ''USD'',
       fill_dict = [1 \<mapsto> \<lparr>fe_symbol = ''AAPL'', fe_exchange = ''SMART'',
                           fe_direction = ''BUY'', fe_filled = False\<rparr>],
       order_id = 2\<rparr> = Inl AttributeError \<and>
   reply_handler 10 (OpenOrder 1 ''AAPL'' ''SMART'' ''BUY'')
      \<lparr>ib_events = [], order_routing = ''SMART'', currency = ''USD'',
       fill_dict = Map.empty, order_id = 1\<rparr> = Inl AttributeError \<and>
   reply_handler 20 (OrderStatus 1 ''Filled'' 100 150)
      \<lparr>ib_events = [], order_routing = ''SMART'', currency = ''USD'',
       fill_dict = Map.empty, order_id = 1\<rparr> =
     Inr \<lparr>ib_events = [], order_routing = ''SMART'', currency = ''USD'',
          fill_dict = Map.empty, order_id = 1\<rparr>"
  by (simp add: reply_handler_def call_message_method_def)


section \<open>Properties of the orchestrator\<close>

text \<open>The dispatch of an event by its tag, in terms of the methods of the roles.\<close>

lemma dispatch_to_roles:
  "dispatch R MarketEvent b =
     (case calculate_signals_of R MarketEvent (world b) of
        Inl e \<Rightarrow> Inl e
      | Inr (w1, evs1) \<Rightarrow>
          (case update_timeindex_of R MarketEvent w1 of
             Inl e \<Rightarrow> Inl e
           | Inr (w2, evs2) \<Rightarrow> Inr (b\<lparr>world := w2, bt_events := bt_events b @ evs1 @ evs2\<rparr>)))"
  "dispatch R (SignalEvent i s t d x) b =
     (case update_signal_of R (SignalEvent i s t d x) (world b) of
        Inl e \<Rightarrow> Inl e
      | Inr (w1, evs1) \<Rightarrow>
          Inr (b\<lparr>signals := signals b + 1, world := w1, bt_events := bt_events b @ evs1\<rparr>))"
  "dispatch R (OrderEvent s ot q d) b =
     (case execute_order_of R (OrderEvent s ot q d) (world b) of
        Inl e \<Rightarrow> Inl e
      | Inr (w1, evs1) \<Rightarrow>
          Inr (b\<lparr>orders := orders b + 1, world := w1, bt_events := bt_events b @ evs1\<rparr>))"
  "dispatch R (FillEvent t s ex q d c) b =
     (case update_fill_of R (FillEvent t s ex q d c) (world b) of
        Inl e \<Rightarrow> Inl e
      | Inr (w1, evs1) \<Rightarrow>
          Inr (b\<lparr>fills := fills b + 1, world := w1, bt_events := bt_events b @ evs1\<rparr>))"
  by (simp_all add: dispatch_def handle_market_event_def handle_signal_event_def
      handle_order_event_def handle_fill_event_def)

lemma dispatch_appends:
  assumes "dispatch R e b = Inr b'"
  shows "\<exists>new. bt_events b' = bt_events b @ new \<and> (cascading R \<longrightarrow> (\<forall>x \<in> set new. rank x < rank e))"
proof (cases e)
  case MarketEvent
  with assms obtain w1 evs1 w2 evs2 where
    c: "calculate_signals_of R e (world b) = Inr (w1, evs1)"
      "update_timeindex_of R e w1 = Inr (w2, evs2)"
      "b' = b\<lparr>world := w2, bt_events := bt_events b @ evs1 @ evs2\<rparr>"
    by (auto simp: dispatch_def handle_market_event_def split: sum.splits prod.splits)
  have "cascading R \<longrightarrow> (\<forall>x \<in> set (evs1 @ evs2). rank x < rank e)"
    using c(1,2) MarketEvent by (auto simp: cascading_def puts_below_def)
  then show ?thesis
    using c(3) by auto
next
  case (SignalEvent i s t d x)
  with assms obtain w1 evs where
    c: "update_signal_of R e (world b) = Inr (w1, evs)"
      "b' = b\<lparr>signals := signals b + 1, world := w1, bt_events := bt_events b @ evs\<rparr>"
    by (auto simp: dispatch_def handle_signal_event_def split: sum.splits prod.splits)
  have "cascading R \<longrightarrow> (\<forall>x \<in> set evs. rank x < rank e)"
    using c(1) SignalEvent by (auto simp: cascading_def puts_below_def)
  then show ?thesis
    using c(2) by auto
next
  case (OrderEvent s ot q d)
  with assms obtain w1 evs where
    c: "execute_order_of R e (world b) = Inr (w1, evs)"
      "b' = b\<lparr>orders := orders b + 1, world := w1, bt_events := bt_events b @ evs\<rparr>"
    by (auto simp: dispatch_def handle_order_event_def split: sum.splits prod.splits)
  have "cascading R \<longrightarrow> (\<forall>x \<in> set evs. rank x < rank e)"
    using c(1) OrderEvent by (auto simp: cascading_def puts_below_def)
  then show ?thesis
    using c(2) by auto
next
  case (FillEvent t s ex q d c)
  with assms obtain w1 evs where
    c: "update_fill_of R e (world b) = Inr (w1, evs)"
      "b' = b\<lparr>fills := fills b + 1, world := w1, bt_events := bt_events b @ evs\<rparr>"
    by (auto simp: dispatch_def handle_fill_event_def split: sum.splits prod.splits)
  have "cascading R \<longrightarrow> (\<forall>x \<in> set evs. rank x < rank e)"
    using c(1) FillEvent by (auto simp: cascading_def puts_below_def)
  then show ?thesis
    using c(2) by auto
qed

lemma drains_fifo:
  "drains R b es ps b' \<Longrightarrow> es = bt_events b @ ps \<and> bt_events b' = []"
  by (induction rule: drains.induct) auto

lemma drains_drain: "drains R b es ps b' \<Longrightarrow> drain R b = Some (Inr b')"
proof (induction rule: drains.induct)
  case (drains_empty b)
  then show ?case by (subst drain.simps) simp
next
  case (drains_pop b event rest b1 new es ps b')
  then show ?case by (subst drain.simps) simp
qed

lemma drain_drains_aux:
  assumes "drain R b = Some r"
  shows "(\<forall>b'. r = Inr b' \<longrightarrow> (\<exists>es ps. drains R b es ps b')) \<and>
         (\<forall>e. r = Inl e \<longrightarrow> (\<exists>es. drain_raises R b es e))"
proof (rule drain.raw_induct
    [where P = "\<lambda>R b r. (\<forall>b'. r = Inr b' \<longrightarrow> (\<exists>es ps. drains R b es ps b')) \<and>
                        (\<forall>e. r = Inl e \<longrightarrow> (\<exists>es. drain_raises R b es e))", OF _ assms])
  fix drain' :: "'a roles \<Rightarrow> 'a backtest \<Rightarrow> (error + 'a backtest) option"
    and R :: "'a roles" and b :: "'a backtest" and r :: "error + 'a backtest"
  assume IH: "\<And>R b r. drain' R b = Some r \<Longrightarrow>
                 (\<forall>b'. r = Inr b' \<longrightarrow> (\<exists>es ps. drains R b es ps b')) \<and>
                 (\<forall>e. r = Inl e \<longrightarrow> (\<exists>es. drain_raises R b es e))"
    and body: "(case bt_events b of
                  [] \<Rightarrow> Some (Inr b)
                | event # rest \<Rightarrow>
                    (case dispatch R event (b\<lparr>bt_events := rest\<rparr>) of
                       Inl e \<Rightarrow> Some (Inl e)
                     | Inr b' \<Rightarrow> drain' R b')) = Some r"
  show "(\<forall>b'. r = Inr b' \<longrightarrow> (\<exists>es ps. drains R b es ps b')) \<and>
        (\<forall>e. r = Inl e \<longrightarrow> (\<exists>es. drain_raises R b es e))"
  proof (cases "bt_events b")
    case Nil
    with body have "r = Inr b" by simp
    then show ?thesis
      using Nil drains_empty by blast
  next
    case (Cons event rest)
    show ?thesis
    proof (cases "dispatch R event (b\<lparr>bt_events := rest\<rparr>)")
      case (Inl e)
      with body Cons have "r = Inl e" by simp
      moreover have "drain_raises R b [event] e"
        using Cons Inl by (rule raises_now)
      ultimately show ?thesis by blast
    next
      case (Inr b1)
      with body Cons have dr: "drain' R b1 = Some r" by simp
      from dispatch_appends[OF Inr] obtain new where n: "bt_events b1 = rest @ new" by auto
      have "\<forall>b'. r = Inr b' \<longrightarrow> (\<exists>es ps. drains R b es ps b')"
      proof (intro allI impI)
        fix b' assume "r = Inr b'"
        with IH[OF dr] obtain es ps where d: "drains R b1 es ps b'" by blast
        from drains_pop[OF Cons Inr n d] show "\<exists>es ps. drains R b es ps b'" by blast
      qed
      moreover have "\<forall>e. r = Inl e \<longrightarrow> (\<exists>es. drain_raises R b es e)"
      proof (intro allI impI)
        fix e assume "r = Inl e"
        with IH[OF dr] obtain es where d: "drain_raises R b1 es e" by blast
        from raises_later[OF Cons Inr d] show "\<exists>es. drain_raises R b es e" by blast
      qed
      ultimately show ?thesis by blast
    qed
  qed
qed

lemma drain_drains:
  "drain R b = Some (Inr b') \<Longrightarrow> \<exists>es ps. drains R b es ps b'"
  using drain_drains_aux by blast

lemma drain_returns:
  assumes "cascading R"
  shows "\<exists>r. drain R b = Some r"
proof -
  let ?rel = "inv_image (mult1 {(x, y :: nat). x < y}) (\<lambda>b :: 'a backtest. mset (map rank (bt_events b)))"
  have "wf ?rel"
    by (intro wf_inv_image wf_mult1 wf_less)
  then show ?thesis
  proof (induction b rule: wf_induct_rule)
    case (less b)
    show ?case
    proof (cases "bt_events b")
      case Nil
      then show ?thesis by (subst drain.simps) simp
    next
      case (Cons event rest)
      show ?thesis
      proof (cases "dispatch R event (b\<lparr>bt_events := rest\<rparr>)")
        case (Inl e)
        then show ?thesis using Cons by (subst drain.simps) simp
      next
        case (Inr b1)
        from dispatch_appends[OF Inr] assms obtain new where
          new: "bt_events b1 = rest @ new" "\<forall>x \<in> set new. rank x < rank event"
          by auto
        have m: "mset (map rank (bt_events b)) = add_mset (rank event) (mset (map rank rest))"
          using Cons by simp
        have n: "mset (map rank (bt_events b1)) = mset (map rank rest) + mset (map rank new)"
          using new(1) by simp
        have k: "\<forall>k. k \<in># mset (map rank new) \<longrightarrow> (k, rank event) \<in> {(x, y). x < y}"
          using new(2) by auto
        have "(mset (map rank (bt_events b1)), mset (map rank (bt_events b))) \<in> mult1 {(x, y). x < y}"
          unfolding mult1_def using m n k by blast
        then have "(b1, b) \<in> ?rel" by simp
        from less[OF this] obtain r where "drain R b1 = Some r" by blast
        then show ?thesis
          using Cons Inr by (subst drain.simps) simp
      qed
    qed
  qed
qed

text \<open>
  Claim C2. In \<open>_run_backtest\<close>, after a call of \<open>update_bars\<close> the inner loop takes
  the events one by one, oldest first, and dispatches each by its tag: a Market event to
  the strategy's \<open>calculate_signals\<close> and then the portfolio's \<open>update_timeindex\<close>, a
  Signal event to the portfolio's \<open>update_signal\<close>, an Order event to the execution
  handler's \<open>execute_order\<close>, a Fill event to the portfolio's \<open>update_fill\<close>. Whatever
  the roles are: when the loop returns a state, the queue is empty, the events it has
  dispatched are those that were on the queue followed by every event put on the queue
  meanwhile, and the next turn of the outer loop, with the next \<open>update_bars\<close>, starts
  from that state; when the loop ends in an exception, the dispatch of an event has
  raised it and the run ends with it; when the loop does not end, there is no next
  \<open>update_bars\<close>. With roles that put only events later in the cascade than the one they
  handle the loop does end.
\<close>

theorem queue_drained_before_next_update:
  assumes "continue_backtest_of R (world b)"
    and "update_bars_of R (world b) = Inr (w, evs)"
  shows "(case drain R (b\<lparr>world := w, bt_events := bt_events b @ evs\<rparr>) of
            None \<Rightarrow> run_backtest R b = None
          | Some (Inl e) \<Rightarrow>
              run_backtest R b = Some (Inl e) \<and>
              (\<exists>es. drain_raises R (b\<lparr>world := w, bt_events := bt_events b @ evs\<rparr>) es e)
          | Some (Inr b') \<Rightarrow>
              bt_events b' = [] \<and> run_backtest R b = run_backtest R b' \<and>
              (\<exists>ps. drains R (b\<lparr>world := w, bt_events := bt_events b @ evs\<rparr>)
                      ((bt_events b @ evs) @ ps) ps b')) \<and>
         (cascading R \<longrightarrow> drain R (b\<lparr>world := w, bt_events := bt_events b @ evs\<rparr>) \<noteq> None) \<and>
         dispatch R MarketEvent b0 =
           (case calculate_signals_of R MarketEvent (world b0) of
              Inl e \<Rightarrow> Inl e
            | Inr (w1, evs1) \<Rightarrow>
                (case update_timeindex_of R MarketEvent w1 of
                   Inl e \<Rightarrow> Inl e
                 | Inr (w2, evs2) \<Rightarrow>
                     Inr (b0\<lparr>world := w2, bt_events := bt_events b0 @ evs1 @ evs2\<rparr>))) \<and>
         dispatch R (SignalEvent i s t d x) b0 =
           (case update_signal_of R (SignalEvent i s t d x) (world b0) of
              Inl e \<Rightarrow> Inl e
            | Inr (w1, evs1) \<Rightarrow>
                Inr (b0\<lparr>signals := signals b0 + 1, world := w1,
                        bt_events := bt_events b0 @ evs1\<rparr>)) \<and>
         dispatch R (OrderEvent s ot q d) b0 =
           (case execute_order_of R (OrderEvent s ot q d) (world b0) of
              Inl e \<Rightarrow> Inl e
            | Inr (w1, evs1) \<Rightarrow>
                Inr (b0\<lparr>orders := orders b0 + 1, world := w1,
                        bt_events := bt_events b0 @ evs1\<rparr>)) \<and>
         dispatch R (FillEvent t s ex q d c) b0 =
           (case update_fill_of R (FillEvent t s ex q d c) (world b0) of
              Inl e \<Rightarrow> Inl e
            | Inr (w1, evs1) \<Rightarrow>
                Inr (b0\<lparr>fills := fills b0 + 1, world := w1,
                        bt_events := bt_events b0 @ evs1\<rparr>))"
proof -
  let ?b1 = "b\<lparr>world := w, bt_events := bt_events b @ evs\<rparr>"
  have run: "run_backtest R b =
               Option.bind (drain R ?b1)
                 (\<lambda>r. case r of Inl e \<Rightarrow> Some (Inl e) | Inr b' \<Rightarrow> run_backtest R b')"
    using assms by (subst run_backtest.simps) simp
  have first: "case drain R ?b1 of
                 None \<Rightarrow> run_backtest R b = None
               | Some (Inl e) \<Rightarrow>
                   run_backtest R b = Some (Inl e) \<and> (\<exists>es. drain_raises R ?b1 es e)
               | Some (Inr b') \<Rightarrow>
                   bt_events b' = [] \<and> run_backtest R b = run_backtest R b' \<and>
                   (\<exists>ps. drains R ?b1 ((bt_events b @ evs) @ ps) ps b')"
  proof (cases "drain R ?b1")
    case None
    then show ?thesis using run by simp
  next
    case (Some r)
    note aux = drain_drains_aux[OF Some]
    show ?thesis
    proof (cases r)
      case (Inl e)
      then obtain es where "drain_raises R ?b1 es e"
        using aux by blast
      then show ?thesis
        using Some Inl run by auto
    next
      case (Inr b')
      then obtain es ps where d: "drains R ?b1 es ps b'"
        using aux by blast
      from drains_fifo[OF d] have "es = (bt_events b @ evs) @ ps" "bt_events b' = []"
        by simp_all
      then show ?thesis
        using Some Inr run d by auto
    qed
  qed
  have ends: "cascading R \<longrightarrow> drain R ?b1 \<noteq> None"
    using drain_returns[of R ?b1] by auto
  show ?thesis
    using first ends by (simp only: dispatch_to_roles)
qed

lemma cascading_example: "cascading example_roles"
  by (auto simp: cascading_def puts_below_def example_roles_def)

lemma drain_example:
  "drain example_roles
     \<lparr>bt_events = [MarketEvent], signals = 0, orders = 0, fills = 0, world = [''update_bars'']\<rparr> =
   Some (Inr \<lparr>bt_events = [], signals = 1, orders = 1, fills = 1,
              world = [''update_bars'', ''calculate_signals'', ''update_timeindex'',
                       ''update_signal'', ''execute_order'', ''update_fill'']\<rparr>)"
  by (simp add: drain.simps dispatch_def handle_market_event_def handle_signal_event_def
      handle_order_event_def handle_fill_event_def example_roles_def)

text \<open>
  The first bar of the worked run: the Market event goes to the strategy and the
  portfolio's \<open>update_timeindex\<close>, the signal it brings to \<open>update_signal\<close>, the order to
  \<open>execute_order\<close>, the fill to \<open>update_fill\<close>, all before the second \<open>update_bars\<close>.
\<close>

theorem queue_drained_before_next_update_witness:
  "continue_backtest_of example_roles
     (world \<lparr>bt_events = [], signals = 0, orders = 0, fills = 0, world = []\<rparr>) \<and>
   update_bars_of example_roles
     (world \<lparr>bt_events = [], signals = 0, orders = 0, fills = 0, world = []\<rparr>) =
     Inr ([''update_bars''], [MarketEvent]) \<and>
   cascading example_roles \<and>
   drain example_roles
     \<lparr>bt_events = [MarketEvent], signals = 0, orders = 0, fills = 0, world = [''update_bars'']\<rparr> =
     Some (Inr \<lparr>bt_events = [], signals = 1, orders = 1, fills = 1,
                world = [''update_bars'', ''calculate_signals'', ''update_timeindex'',
                         ''update_signal'', ''execute_order'', ''update_fill'']\<rparr>) \<and>
   run_backtest example_roles \<lparr>bt_events = [], signals = 0, orders = 0, fills = 0, world = []\<rparr> =
     run_backtest example_roles
       \<lparr>bt_events = [], signals = 1, orders = 1, fills = 1,
        world = [''update_bars'', ''calculate_signals'', ''update_timeindex'',
                 ''update_signal'', ''execute_order'', ''update_fill'']\<rparr>"
proof -
  let ?b = "\<lparr>bt_events = [], signals = 0, orders = 0, fills = 0, world = []::string list\<rparr>"
  let ?b' = "\<lparr>bt_events = [], signals = 1, orders = 1, fills = 1,
              world = [''update_bars'', ''calculate_signals'', ''update_timeindex'',
                       ''update_signal'', ''execute_order'', ''update_fill'']\<rparr>"
  have c: "continue_backtest_of example_roles (world ?b)"
    by (simp add: example_roles_def)
  have u: "update_bars_of example_roles (world ?b) = Inr ([''update_bars''], [MarketEvent])"
    by (simp add: example_roles_def)
  have d: "drain example_roles (?b\<lparr>world := [''update_bars''], bt_events := bt_events ?b @ [MarketEvent]\<rparr>)
             = Some (Inr ?b')"
    using drain_example by simp
  from queue_drained_before_next_update[OF c u, THEN conjunct1]
  have "run_backtest example_roles ?b = run_backtest example_roles ?b'"
    unfolding d by simp
  then show ?thesis
    using c u cascading_example drain_example by blast
qed

text \<open>The whole worked run ends after two bars with two signals, orders and fills.\<close>

lemma run_example:
  "run_backtest example_roles \<lparr>bt_events = [], signals = 0, orders = 0, fills = 0, world = []\<rparr> =
     Some (Inr \<lparr>bt_events = [], signals = 2, orders = 2, fills = 2,
                world = [''update_bars'', ''calculate_signals'', ''update_timeindex'',
                         ''update_signal'', ''execute_order'', ''update_fill'',
                         ''update_bars'', ''calculate_signals'', ''update_timeindex'',
                         ''update_signal'', ''execute_order'', ''update_fill'']\<rparr>)"
  by (simp add: run_backtest.simps drain.simps dispatch_def handle_market_event_def
      handle_signal_event_def handle_order_event_def handle_fill_event_def example_roles_def)


section \<open>An untracked symbol\<close>

lemma run_ends_when_strategy_raises:
  assumes "continue_backtest_of R (world b)"
    and "update_bars_of R (world b) = Inr (w, evs)"
    and "bt_events b @ evs = MarketEvent # rest"
    and "calculate_signals_of R MarketEvent w = Inl e"
  shows "run_backtest R b = Some (Inl e)"
proof -
  let ?b1 = "b\<lparr>world := w, bt_events := bt_events b @ evs\<rparr>"
  have "dispatch R MarketEvent (?b1\<lparr>bt_events := rest\<rparr>) = Inl e"
    using assms(4) by (simp add: dispatch_def handle_market_event_def)
  then have "drain R ?b1 = Some (Inl e)"
    using assms(3) by (subst drain.simps) simp
  then show ?thesis
    using assms(1,2) by (subst run_backtest.simps) simp
qed

text \<open>
  Claim C9, as the code has it. For a symbol that is not in the symbol list, each of the
  five lookups raises KeyError (a LookupError). The failure is not exhaustion: the caller
  gets the exception and the handler is as before, with its flag \<open>continue_backtest\<close>;
  so for the strategies, whose call raises the KeyError of the lookup in the state in
  which it was called. The exception is not caught on the way: \<open>_run_backtest\<close> catches
  only \<open>queue.Empty\<close>, and a run in which the strategy's \<open>calculate_signals\<close> raises the
  KeyError on the Market event of a bar ends with it.
\<close>

theorem untracked_symbol_lookup:
  assumes "handler_ok h" and "symbol \<notin> set (symbol_list h)"
  shows "get_latest_bar h symbol = Inl KeyError \<and>
         get_latest_bars h symbol N = Inl KeyError \<and>
         get_latest_bar_value h symbol val_type = Inl KeyError \<and>
         get_latest_bars_values h symbol val_type N = Inl KeyError \<and>
         get_latest_bar_datetime h symbol = Inl KeyError \<and>
         mac_symbol dt symbol (h, m) = Inl (KeyError, (h, m)) \<and>
         continue_backtest (fst (state_after (mac_symbol dt symbol (h, m)))) = continue_backtest h \<and>
         (fst (pair p) = symbol \<longrightarrow>
            calculate_signals_for_pairs ols (h, p) = Inl (KeyError, (h, p)) \<and>
            continue_backtest (fst (state_after (calculate_signals_for_pairs ols (h, p))))
              = continue_backtest h) \<and>
         (continue_backtest_of R (world b) \<and> update_bars_of R (world b) = Inr (w, evs) \<and>
          bt_events b @ evs = MarketEvent # rest \<and>
          calculate_signals_of R MarketEvent w = Inl KeyError \<longrightarrow>
            run_backtest R b = Some (Inl KeyError))"
proof -
  have none: "latest_symbol_data h symbol = None"
    using assms by (auto simp: handler_ok_def)
  have five: "get_latest_bar h symbol = Inl KeyError \<and>
         get_latest_bars h symbol N = Inl KeyError \<and>
         get_latest_bar_value h symbol val_type = Inl KeyError \<and>
         get_latest_bars_values h symbol val_type N = Inl KeyError \<and>
         get_latest_bar_datetime h symbol = Inl KeyError"
    using none
    by (simp add: get_latest_bar_def get_latest_bars_def get_latest_bar_value_def
        get_latest_bars_values_def get_latest_bar_datetime_def)
  have vals: "\<And>f n. get_latest_bars_values h symbol f n = Inl KeyError"
    using none by (simp add: get_latest_bars_values_def get_latest_bars_def)
  have mac: "mac_symbol dt symbol (h, m) = Inl (KeyError, (h, m))"
    by (simp add: mac_symbol_def vals)
  have prs: "fst (pair p) = symbol \<longrightarrow>
               calculate_signals_for_pairs ols (h, p) = Inl (KeyError, (h, p))"
    by (auto simp: calculate_signals_for_pairs_def vals)
  have run: "continue_backtest_of R (world b) \<and> update_bars_of R (world b) = Inr (w, evs) \<and>
          bt_events b @ evs = MarketEvent # rest \<and>
          calculate_signals_of R MarketEvent w = Inl KeyError \<longrightarrow>
            run_backtest R b = Some (Inl KeyError)"
  proof (intro impI, elim conjE)
    assume "continue_backtest_of R (world b)" "update_bars_of R (world b) = Inr (w, evs)"
      "bt_events b @ evs = MarketEvent # rest" "calculate_signals_of R MarketEvent w = Inl KeyError"
    then show "run_backtest R b = Some (Inl KeyError)"
      by (rule run_ends_when_strategy_raises)
  qed
  have flag1: "continue_backtest (fst (state_after (mac_symbol dt symbol (h, m)))) = continue_backtest h"
    unfolding mac by simp
  have prs2: "fst (pair p) = symbol \<longrightarrow>
            calculate_signals_for_pairs ols (h, p) = Inl (KeyError, (h, p)) \<and>
            continue_backtest (fst (state_after (calculate_signals_for_pairs ols (h, p))))
              = continue_backtest h"
    using prs by simp
  show ?thesis
    using five mac flag1 prs2 run by blast
qed

text \<open>
  A handler for GOOG and AAPL and the pairs strategy, whose pair is AREX and WLL: the
  lookups of AREX raise KeyError, and the strategy's call raises it and leaves the
  handler as it was, its flag true.
\<close>

theorem untracked_symbol_lookup_witness:
  "(case HistoricCSVDataHandler [] [1] (flat_rows 10) [''GOOG'', ''AAPL''] of
      Inl e \<Rightarrow> False
    | Inr h \<Rightarrow>
        handler_ok h \<and> ''AREX'' \<notin> set (symbol_list h) \<and>
        get_latest_bar h ''AREX'' = Inl KeyError \<and>
        get_latest_bars h ''AREX'' 100 = Inl KeyError \<and>
        get_latest_bar_value h ''AREX'' ''close'' = Inl KeyError \<and>
        get_latest_bars_values h ''AREX'' ''close'' 100 = Inl KeyError \<and>
        get_latest_bar_datetime h ''AREX'' = Inl KeyError \<and>
        fst (pair (IntradayOLSMRStrategy 5 100 (1/2) 3)) = ''AREX'' \<and>
        calculate_signals_for_pairs ols_origin (h, IntradayOLSMRStrategy 5 100 (1/2) 3) =
          Inl (KeyError, (h, IntradayOLSMRStrategy 5 100 (1/2) 3)) \<and>
        continue_backtest (fst (state_after
          (calculate_signals_for_pairs ols_origin (h, IntradayOLSMRStrategy 5 100 (1/2) 3)))))"
proof -
  let ?p = "IntradayOLSMRStrategy 5 100 (1/2) 3"
  obtain h where h: "HistoricCSVDataHandler [] [1] (flat_rows 10) [''GOOG'', ''AAPL''] = Inr h"
    by (simp add: HistoricCSVDataHandler_def)
  from handler_init[OF h] have ok: "handler_ok h" and sl: "symbol_list h = [''GOOG'', ''AAPL'']"
    and cb: "continue_backtest h"
    by simp_all
  have un: "''AREX'' \<notin> set (symbol_list h)"
    unfolding sl by simp
  have pr: "fst (pair ?p) = ''AREX''"
    by (simp add: IntradayOLSMRStrategy_def)
  note t = untracked_symbol_lookup[OF ok un,
      where N = 100 and val_type = "''close''" and dt = 0
        and m = "MovingAverageCrossStrategy h 100 400" and p = ?p and ols = ols_origin
        and R = "pairs_roles ols_origin"
        and b = "\<lparr>bt_events = [], signals = 0, orders = 0, fills = 0, world = (h, ?p)\<rparr>"
        and w = "(h, ?p)" and evs = "[MarketEvent]" and rest = "[]"]
  have l1: "get_latest_bar h ''AREX'' = Inl KeyError"
    using t by (elim conjE)
  have l2: "get_latest_bars h ''AREX'' 100 = Inl KeyError"
    using t by (elim conjE)
  have l3: "get_latest_bar_value h ''AREX'' ''close'' = Inl KeyError"
    using t by (elim conjE)
  have l4: "get_latest_bars_values h ''AREX'' ''close'' 100 = Inl KeyError"
    using t by (elim conjE)
  have l5: "get_latest_bar_datetime h ''AREX'' = Inl KeyError"
    using t by (elim conjE)
  have imp: "fst (pair ?p) = ''AREX'' \<longrightarrow>
            calculate_signals_for_pairs ols_origin (h, ?p) = Inl (KeyError, (h, ?p)) \<and>
            continue_backtest (fst (state_after (calculate_signals_for_pairs ols_origin (h, ?p))))
              = continue_backtest h"
    using t by (elim conjE)
  from imp pr have c: "calculate_signals_for_pairs ols_origin (h, ?p) = Inl (KeyError, (h, ?p))"
    and f: "continue_backtest (fst (state_after (calculate_signals_for_pairs ols_origin (h, ?p))))
              = continue_backtest h"
    by (rule mp[THEN conjunct1], rule mp[THEN conjunct2])
  have f': "continue_backtest (fst (state_after (calculate_signals_for_pairs ols_origin (h, ?p))))"
    unfolding f by (rule cb)
  show ?thesis
    unfolding h sum.case
    by (intro conjI) (rule ok un l1 l2 l3 l4 l5 pr c f')+
qed

text \<open>
  Claim C9 as stated fails: in the backtest of that handler and strategy, the KeyError of
  the first Market event is not only handed to the caller: it ends the run.
\<close>

theorem untracked_symbol_ends_run_counterexample:
  "(case HistoricCSVDataHandler [] [1] (flat_rows 10) [''GOOG'', ''AAPL''] of
      Inl e \<Rightarrow> False
    | Inr h \<Rightarrow>
        run_backtest (pairs_roles ols_origin)
          \<lparr>bt_events = [], signals = 0, orders = 0, fills = 0,
           world = (h, IntradayOLSMRStrategy 5 100 (1/2) 3)\<rparr> = Some (Inl KeyError))"
proof -
  let ?p = "IntradayOLSMRStrategy 5 100 (1/2) 3"
  let ?R = "pairs_roles ols_origin"
  obtain h where h: "HistoricCSVDataHandler [] [1] (flat_rows 10) [''GOOG'', ''AAPL''] = Inr h"
    by (simp add: HistoricCSVDataHandler_def)
  from handler_init[OF h] have ok: "handler_ok h" and d: "distinct (symbol_list h)"
    and sl: "symbol_list h = [''GOOG'', ''AAPL'']" and cb: "continue_backtest h"
    by simp_all
  let ?b = "\<lparr>bt_events = [], signals = 0, orders = 0, fills = 0, world = (h, ?p)\<rparr>"
  have ok0: "handler_ok (h\<lparr>events := []\<rparr>)" "distinct (symbol_list (h\<lparr>events := []\<rparr>))"
    using ok d by (simp_all add: handler_ok_def)
  let ?h0 = "h\<lparr>events := []\<rparr>"
  from update_bars_effect[OF ok0] obtain h1 where
    h1: "update_bars ?h0 = Inr h1" and e1: "events h1 = events ?h0 @ [MarketEvent]"
      and ok1: "handler_ok h1" and sl1: "symbol_list h1 = symbol_list ?h0"
    by blast
  have ev1: "events h1 = [MarketEvent]"
    using e1 by simp
  have c: "continue_backtest_of ?R (world ?b)"
    using cb by (simp add: pairs_roles_def)
  have u: "update_bars_of ?R (world ?b) = Inr ((h1\<lparr>events := []\<rparr>, ?p), [MarketEvent])"
    by (simp add: pairs_roles_def h1 ev1)
  have "''AREX'' \<notin> dom (latest_symbol_data h1)"
    using ok1 sl1 sl by (simp add: handler_ok_def)
  then have none: "latest_symbol_data (h1\<lparr>events := []\<rparr>) ''AREX'' = None"
    by (simp add: domIff)
  have "calculate_signals_for_pairs ols_origin (h1\<lparr>events := []\<rparr>, ?p) =
          Inl (KeyError, (h1\<lparr>events := []\<rparr>, ?p))"
    using none
    by (simp add: calculate_signals_for_pairs_def get_latest_bars_values_def get_latest_bars_def
        IntradayOLSMRStrategy_def)
  then have r: "calculate_signals_of ?R MarketEvent (h1\<lparr>events := []\<rparr>, ?p) = Inl KeyError"
    by (simp add: pairs_roles_def olsmr_calculate_signals_def)
  have "run_backtest ?R ?b = Some (Inl KeyError)"
    by (rule run_ends_when_strategy_raises[OF c u _ r]) simp
  then show ?thesis
    using h by simp
qed

end
